theory Spec2Isabelle
  imports Main "HOL-Library.Multiset"
begin

unbundle bit_operations_syntax

section \<open>Python values, exceptions and strings\<close>

text \<open>
  Exceptions are values: the constructor is the Python exception class, the string is the
  message of the raise site, with the interpolated parts of an f-string left out.
  A function that can raise returns \<open>error + 'a\<close>, with \<open>Inl\<close> for the exception.
\<close>

datatype error =
    ValueError string
  | TypeError string
  | IndexError string
  | OverflowError string
  | AttributeError string

text \<open>
  A finite float \<open>Finite m e\<close> stands for the number \<open>m * 2 ^ e\<close> (every finite
  IEEE double has this form); \<open>Inf\<close> and \<open>NaN\<close> are the special values.
  Only \<open>int()\<close> is ever applied to a float here, so no float arithmetic is modelled.
\<close>

datatype pyfloat = Finite int int | Inf | NaN

datatype pyval = PInt int | PBool bool | PStr string | PFloat pyfloat | PNone

text \<open>
  Strings are lists of \<open>char\<close>, read as ASCII text. \<open>int(s)\<close> on a string strips
  ASCII white space, reads an optional sign and then decimal digits, where single
  underscores may separate digits.
\<close>

definition py_isspace :: "char \<Rightarrow> bool" where
  "py_isspace c = (c \<in> set [CHR 0x09, CHR 0x0A, CHR 0x0B, CHR 0x0C, CHR 0x0D, CHR 0x20])"

definition is_digit :: "char \<Rightarrow> bool" where
  "is_digit c = (48 \<le> (of_char c :: nat) \<and> (of_char c :: nat) \<le> 57)"

definition digit_val :: "char \<Rightarrow> nat" where
  "digit_val c = of_char c - 48"

fun parse_digits :: "nat \<Rightarrow> string \<Rightarrow> nat option" where
  "parse_digits acc [] = Some acc"
| "parse_digits acc [c] =
     (if is_digit c then Some (10 * acc + digit_val c) else None)"
| "parse_digits acc (c # d # ds) =
     (if is_digit c then parse_digits (10 * acc + digit_val c) (d # ds)
      else if c = CHR ''_'' \<and> is_digit d then parse_digits (10 * acc + digit_val d) ds
      else None)"

definition parse_unsigned :: "string \<Rightarrow> nat option" where
  "parse_unsigned s =
     (case s of [] \<Rightarrow> None
      | c # cs \<Rightarrow> if is_digit c then parse_digits (digit_val c) cs else None)"

definition strip :: "string \<Rightarrow> string" where
  "strip s = rev (dropWhile py_isspace (rev (dropWhile py_isspace s)))"

definition int_of_str :: "string \<Rightarrow> int option" where
  "int_of_str s =
     (case strip s of [] \<Rightarrow> None
      | c # cs \<Rightarrow>
          if c = CHR ''-'' then map_option (\<lambda>n. - int n) (parse_unsigned cs)
          else if c = CHR ''+'' then map_option int (parse_unsigned cs)
          else map_option int (parse_unsigned (c # cs)))"

definition trunc_float :: "int \<Rightarrow> int \<Rightarrow> int" where
  "trunc_float m e =
     (if 0 \<le> e then m * 2 ^ nat e
      else if 0 \<le> m then m div 2 ^ nat (- e)
      else - ((- m) div 2 ^ nat (- e)))"

fun py_int :: "pyval \<Rightarrow> error + int" where
  "py_int (PInt n) = Inr n"
| "py_int (PBool b) = Inr (if b then 1 else 0)"
| "py_int (PStr s) =
     (case int_of_str s of
        None \<Rightarrow> Inl (ValueError ''invalid literal for int() with base 10'')
      | Some n \<Rightarrow> Inr n)"
| "py_int (PFloat (Finite m e)) = Inr (trunc_float m e)"
| "py_int (PFloat Inf) = Inl (OverflowError ''cannot convert float infinity to integer'')"
| "py_int (PFloat NaN) = Inl (ValueError ''cannot convert float NaN to integer'')"
| "py_int PNone = Inl (TypeError ''int() argument must be a string or a number'')"

text \<open>\<open>str(n)\<close> for an integer \<open>n\<close>: its decimal numeral.\<close>

definition digit_char :: "nat \<Rightarrow> char" where
  "digit_char d = char_of (48 + d)"

fun nat_digits :: "nat \<Rightarrow> string" where
  "nat_digits n =
     (if n < 10 then [digit_char n] else nat_digits (n div 10) @ [digit_char (n mod 10)])"

declare nat_digits.simps [simp del]

definition str_of_int :: "int \<Rightarrow> string" where
  "str_of_int n = (if n < 0 then CHR ''-'' # nat_digits (nat (- n)) else nat_digits (nat n))"

text \<open>\<open>s.lower()\<close> on ASCII letters.\<close>

definition char_lower :: "char \<Rightarrow> char" where
  "char_lower c =
     (if 65 \<le> (of_char c :: nat) \<and> (of_char c :: nat) \<le> 90
      then char_of ((of_char c :: nat) + 32) else c)"

definition lower :: "string \<Rightarrow> string" where
  "lower s = map char_lower s"

text \<open>
  \<open>a > b\<close> on two Python strings: lexicographic by code point, a proper prefix being
  smaller.
\<close>

fun str_gt :: "string \<Rightarrow> string \<Rightarrow> bool" where
  "str_gt [] ys = False"
| "str_gt (x # xs) [] = True"
| "str_gt (x # xs) (y # ys) =
     ((of_char x :: nat) > of_char y \<or> (x = y \<and> str_gt xs ys))"

text \<open>\<open>s.split(sep, n)\<close> (at most \<open>n\<close> cuts), \<open>s.split(sep)\<close> and \<open>sep.join(parts)\<close>.\<close>

fun split_max :: "char \<Rightarrow> nat \<Rightarrow> string \<Rightarrow> string list" where
  "split_max sep 0 s = [s]"
| "split_max sep (Suc n) s =
     (if sep \<in> set s
      then takeWhile (\<lambda>c. c \<noteq> sep) s # split_max sep n (tl (dropWhile (\<lambda>c. c \<noteq> sep) s))
      else [s])"

definition split2 :: "string \<Rightarrow> string list" where
  "split2 s = split_max (CHR ''-'') (Suc (Suc 0)) s"

definition split_all :: "string \<Rightarrow> string list" where
  "split_all s = split_max (CHR ''-'') (length s) s"

fun join :: "char \<Rightarrow> string list \<Rightarrow> string" where
  "join sep [] = []"
| "join sep [x] = x"
| "join sep (x # y # ys) = x @ sep # join sep (y # ys)"

text \<open>
  A \<open>dict\<close> is an association list in insertion order with pairwise different keys;
  \<open>d[k] = v\<close> replaces the value of a key that is present and appends a new key.
\<close>

fun dict_set :: "('k \<times> 'v) list \<Rightarrow> 'k \<Rightarrow> 'v \<Rightarrow> ('k \<times> 'v) list" where
  "dict_set [] k v = [(k, v)]"
| "dict_set ((k', v') # d) k v =
     (if k' = k then (k', v) # d else (k', v') # dict_set d k v)"

definition dict_get :: "('k \<times> 'v) list \<Rightarrow> 'k \<Rightarrow> 'v option" where
  "dict_get d k = map_of d k"

text \<open>\<open>a << n\<close> and \<open>a >> n\<close> on Python integers raise on a negative shift count.\<close>

definition py_lshift :: "int \<Rightarrow> int \<Rightarrow> error + int" where
  "py_lshift a n =
     (if n < 0 then Inl (ValueError ''negative shift count'') else Inr (push_bit (nat n) a))"

definition py_rshift :: "int \<Rightarrow> int \<Rightarrow> error + int" where
  "py_rshift a n =
     (if n < 0 then Inl (ValueError ''negative shift count'') else Inr (drop_bit (nat n) a))"

section \<open>helpers.py\<close>

text \<open>
  \<open>is_int\<close> catches \<open>ValueError\<close> only: any other exception of \<open>int()\<close> passes through.
\<close>

definition is_int :: "pyval \<Rightarrow> error + bool" where
  "is_int v =
     (case py_int v of
        Inr n \<Rightarrow> Inr True
      | Inl (ValueError m) \<Rightarrow> Inr False
      | Inl e \<Rightarrow> Inl e)"

text \<open>
  On a string, \<open>int()\<close> can raise nothing but \<open>ValueError\<close>, so \<open>is_int\<close> is a total
  predicate there; \<open>is_str\<close> is only ever applied to labels, which are strings.
\<close>

definition is_int_str :: "string \<Rightarrow> bool" where
  "is_int_str s = (int_of_str s \<noteq> None)"

definition is_str :: "string \<Rightarrow> bool" where
  "is_str s = (\<not> is_int_str s \<and> length s > 0)"

text \<open>
  Keys of the raw schema and of its value dictionaries are strings or integers;
  \<open>key_str\<close> is \<open>str(k)\<close>, \<open>key_int\<close> is \<open>int(k)\<close> with \<open>None\<close> for its
  \<open>ValueError\<close>. The value of a raw entry is a string, a dictionary of labels, or
  an object of another type.
\<close>

datatype key = KStr string | KInt int

datatype info = InfoStr string | InfoDict "(key \<times> string) list" | InfoOther

type_synonym schema = "(string \<times> (string \<times> string) list) list"

fun key_str :: "key \<Rightarrow> string" where
  "key_str (KStr s) = s"
| "key_str (KInt n) = str_of_int n"

fun key_int :: "key \<Rightarrow> int option" where
  "key_int (KStr s) = int_of_str s"
| "key_int (KInt n) = Some n"

text \<open>
  \<open>format_bit_key\<close>: \<open>check3\<close> is its last \<open>if len(parts) == 3\<close> block, which also
  runs on the three parts made from a two-part key. \<open>parts[0] > parts[1]\<close> compares the
  two strings.
\<close>

definition check3 :: "string list \<Rightarrow> error + string" where
  "check3 parts =
     (case parts of
        [p0, p1, p2] \<Rightarrow>
          if is_int_str p0 \<and> is_int_str p1 \<and> str_gt p0 p1
          then Inl (ValueError ''start bit must be less than or equal to end bit.'')
          else if \<not> is_int_str p0 \<or> \<not> is_int_str p1
          then Inl (ValueError ''Bad format. Use start-end-catname'')
          else Inr (join (CHR ''-'') parts)
      | _ \<Rightarrow> Inr (join (CHR ''-'') parts))"

definition format_bit_key :: "key \<Rightarrow> error + string" where
  "format_bit_key b =
     (case split2 (key_str b) of
        [p] \<Rightarrow> Inl (ValueError ''Bad format. Use start-end-catname'')
      | [p0, p1] \<Rightarrow>
          if is_int_str p0 \<and> is_str p1 then check3 [p0, p0, p1]
          else Inl (ValueError ''Bad format. Use start-end-catname'')
      | parts \<Rightarrow> check3 parts)"

text \<open>The loop of \<open>format_bit_value\<close> over the items of a dictionary.\<close>

fun format_value_loop ::
  "(key \<times> string) list \<Rightarrow> (string \<times> string) list \<Rightarrow> error + (string \<times> string) list"
where
  "format_value_loop [] fv = Inr fv"
| "format_value_loop ((pos, val) # rest) fv =
     (case key_int pos of
        None \<Rightarrow> Inl (ValueError ''Bit position must be an integer.'')
      | Some n \<Rightarrow>
          if \<not> is_str val then Inl (ValueError ''Bit value must be a non-empty string.'')
          else format_value_loop rest (dict_set fv (str_of_int n) val))"

fun format_bit_value :: "info \<Rightarrow> error + (string \<times> string) list" where
  "format_bit_value (InfoStr v) = Inr [(''1'', v)]"
| "format_bit_value (InfoDict d) = format_value_loop d []"
| "format_bit_value InfoOther = Inl (ValueError ''Bit value must be a string or a dict.'')"

text \<open>
  The first block of the loop of \<open>format_bits_info\<close>: a key that is one integer takes
  its name from the value.
\<close>

definition single_bit_key :: "key \<Rightarrow> info \<Rightarrow> error + key" where
  "single_bit_key b info =
     (case split2 (key_str b) of
        [p0] \<Rightarrow>
          if is_int_str p0 then
            (case info of
               InfoDict d \<Rightarrow>
                 if length d \<le> 2 then
                   (case (case dict_get d (KStr ''1'') of
                            Some l \<Rightarrow> Some l | None \<Rightarrow> dict_get d (KInt 1)) of
                      None \<Rightarrow>
                        Inl (ValueError ''For single bit the positive value must be set.'')
                    | Some bit_1 \<Rightarrow> Inr (KStr (p0 @ ''-'' @ p0 @ ''-'' @ bit_1)))
                 else Inl (ValueError ''For single bit the positive value must be set.'')
             | InfoStr l \<Rightarrow> Inr (KStr (p0 @ ''-'' @ p0 @ ''-'' @ l))
             | InfoOther \<Rightarrow>
                 Inl (ValueError ''For single bit the positive value must be set.''))
          else Inr b
      | _ \<Rightarrow> Inr b)"

text \<open>
  The rest of the loop body, from \<open>start, end, catname = bit.split("-", 2)\<close> on: it
  returns the entry to store and the name to append to \<open>classes\<close>.
\<close>

definition check_entry ::
  "string \<Rightarrow> info \<Rightarrow> string list \<Rightarrow> error + (string \<times> (string \<times> string) list) \<times> string"
where
  "check_entry b info classes =
     (case split2 b of
        [start, end, catname] \<Rightarrow>
          (case int_of_str start of
             None \<Rightarrow> Inl (ValueError ''invalid literal for int() with base 10'')
           | Some s \<Rightarrow>
          (case int_of_str end of
             None \<Rightarrow> Inl (ValueError ''invalid literal for int() with base 10'')
           | Some e \<Rightarrow>
              if e - s + 1 < 1
              then Inl (ValueError ''start bit must be less than or equal to end bit.'')
              else if catname \<in> set classes
              then Inl (ValueError ''Bits information cannot contain duplicated names.'')
              else if info = InfoOther
              then Inl (ValueError ''Bit value must be a string or a dict.'')
              else
                (case format_bit_value info of
                   Inl err \<Rightarrow> Inl err
                 | Inr fi \<Rightarrow>
                     if int (length fi) > 2 ^ nat (e - s + 1)
                     then Inl (ValueError ''Number of values exceeds the number of bits.'')
                     else if None \<in> set (map (int_of_str \<circ> fst) fi)
                     then Inl (ValueError ''invalid literal for int() with base 10'')
                     else if \<exists>pos \<in> set (map (the \<circ> int_of_str \<circ> fst) fi).
                                pos \<ge> 2 ^ nat (e - s + 1)
                     then Inl (ValueError ''One or more positions are out of range.'')
                     else Inr ((b, fi), catname))))
      | _ \<Rightarrow> Inl (ValueError ''not enough values to unpack (expected 3)''))"

fun format_bits_loop :: "(key \<times> info) list \<Rightarrow> schema \<Rightarrow> string list \<Rightarrow> error + schema" where
  "format_bits_loop [] final classes = Inr final"
| "format_bits_loop ((b, info) # rest) final classes =
     (case single_bit_key b info of
        Inl e \<Rightarrow> Inl e
      | Inr b1 \<Rightarrow>
          (case format_bit_key b1 of
             Inl e \<Rightarrow> Inl e
           | Inr b2 \<Rightarrow>
               (case check_entry b2 info classes of
                  Inl e \<Rightarrow> Inl e
                | Inr ((k, fi), catname) \<Rightarrow>
                    format_bits_loop rest (dict_set final k fi) (classes @ [catname]))))"

definition format_bits_info :: "(key \<times> info) list \<Rightarrow> error + schema" where
  "format_bits_info bits_info = format_bits_loop bits_info [] []"

section \<open>bitmask.py: Bit\<close>

record bit =
  position :: int
  positive :: string
  negative :: string

text \<open>
  \<open>Bit.__init__(position, positive, negative=None)\<close>. \<open>negative or f"no {positive}"\<close>
  takes the default for \<open>None\<close> and for the empty string.
\<close>

definition Bit_init :: "pyval \<Rightarrow> string \<Rightarrow> string option \<Rightarrow> error + bit" where
  "Bit_init pos posv neg =
     (case is_int pos of
        Inl e \<Rightarrow> Inl e
      | Inr False \<Rightarrow> Inl (TypeError ''Bit position must be an integer.'')
      | Inr True \<Rightarrow>
          (case py_int pos of
             Inl e \<Rightarrow> Inl e
           | Inr p \<Rightarrow>
               Inr \<lparr>position = p, positive = posv,
                    negative = (case neg of None \<Rightarrow> ''no '' @ posv
                                | Some n \<Rightarrow> if n = [] then ''no '' @ posv else n)\<rparr>))"

section \<open>bitmask.py: BitGroup\<close>

record bitgroup =
  min_position :: int
  max_position :: int
  description :: string
  n_values :: int
  value_map :: "(int \<times> string) list"
  reverse_value_map :: "(string \<times> int) list"

text \<open>
  The loop of \<open>BitGroup.__init__\<close> over \<open>value_map.items()\<close>; \<open>vm\<close> is the
  \<open>_value_map\<close> built so far, \<open>nv\<close> is \<open>self.n_values\<close>.
\<close>

fun validate_value_map ::
  "int \<Rightarrow> (pyval \<times> string) list \<Rightarrow> (int \<times> string) list \<Rightarrow> error + (int \<times> string) list"
where
  "validate_value_map nv [] vm = Inr vm"
| "validate_value_map nv ((k, v) # rest) vm =
     (case is_int k of
        Inl e \<Rightarrow> Inl e
      | Inr False \<Rightarrow> Inl (ValueError ''Bit position must be an integer.'')
      | Inr True \<Rightarrow>
          if \<not> is_str v then Inl (ValueError ''Bit value must be a non-empty string.'')
          else
            (case py_int k of
               Inl e \<Rightarrow> Inl e
             | Inr k_int \<Rightarrow>
                 if k_int \<in> set (map fst vm)
                 then Inl (ValueError ''Bit position is duplicated in the value map.'')
                 else if k_int < 0 \<or> k_int \<ge> nv
                 then Inl (ValueError ''Bit position is out of range for the bit group.'')
                 else validate_value_map nv rest (dict_set vm k_int (lower v))))"

text \<open>\<open>{v: k for k, v in self.value_map.items()}\<close>: a later key wins for a repeated label.\<close>

fun reverse_map :: "(int \<times> string) list \<Rightarrow> (string \<times> int) list \<Rightarrow> (string \<times> int) list" where
  "reverse_map [] acc = acc"
| "reverse_map ((k, v) # rest) acc = reverse_map rest (dict_set acc v k)"

definition BitGroup_init ::
  "string \<Rightarrow> pyval \<Rightarrow> pyval \<Rightarrow> (pyval \<times> string) list \<Rightarrow> error + bitgroup"
where
  "BitGroup_init descr minp maxp vmap =
     (case is_int minp of
        Inl e \<Rightarrow> Inl e
      | Inr False \<Rightarrow> Inl (TypeError ''Bit positions must be integers.'')
      | Inr True \<Rightarrow>
     (case is_int maxp of
        Inl e \<Rightarrow> Inl e
      | Inr False \<Rightarrow> Inl (TypeError ''Bit positions must be integers.'')
      | Inr True \<Rightarrow>
     (case py_int minp of Inl e \<Rightarrow> Inl e | Inr mn \<Rightarrow>
     (case py_int maxp of Inl e \<Rightarrow> Inl e | Inr mx \<Rightarrow>
        if mn < 0 \<or> mx < 0 then Inl (ValueError ''Bit positions must be non-negative.'')
        else if mn > mx
        then Inl (ValueError
                    ''Minimum position must be less than or equal to maximum position.'')
        else
          (case validate_value_map (2 ^ nat (mx - mn + 1)) vmap [] of
             Inl e \<Rightarrow> Inl e
           | Inr vm \<Rightarrow>
               if length vm = 0 then Inl (ValueError ''Value map cannot be empty.'')
               else if mn = mx \<and> length vm = 1 \<and> 1 \<notin> set (map fst vm)
               then Inl (ValueError
                  ''For single bit groups, the value map must contain a value for bit 1.'')
               else Inr \<lparr>min_position = mn, max_position = mx, description = lower descr,
                         n_values = 2 ^ nat (mx - mn + 1), value_map = vm,
                         reverse_value_map = reverse_map vm []\<rparr>)))))"

text \<open>\<open>Bit.to_bit_group(description)\<close>.\<close>

definition to_bit_group :: "bit \<Rightarrow> string \<Rightarrow> error + bitgroup" where
  "to_bit_group b descr =
     BitGroup_init descr (PInt (position b)) (PInt (position b))
       [(PInt 0, negative b), (PInt 1, positive b)]"

text \<open>The property \<open>group_mask\<close>: \<open>(1 << num_bits) - 1\<close>.\<close>

definition group_mask :: "bitgroup \<Rightarrow> error + int" where
  "group_mask g =
     (case py_lshift 1 (max_position g - min_position g + 1) of
        Inl e \<Rightarrow> Inl e
      | Inr m \<Rightarrow> Inr (m - 1))"

text \<open>
  \<open>(value >> self.min_position) & self.group_mask\<close>, the left operand first; shared by
  \<open>decode_value\<close> and \<open>is_positive_by_key\<close>.
\<close>

definition group_value :: "bitgroup \<Rightarrow> int \<Rightarrow> error + int" where
  "group_value g v =
     (case py_rshift v (min_position g) of
        Inl e \<Rightarrow> Inl e
      | Inr s \<Rightarrow> (case group_mask g of Inl e \<Rightarrow> Inl e | Inr m \<Rightarrow> Inr (s AND m)))"

definition decode_value :: "bitgroup \<Rightarrow> int \<Rightarrow> error + string option" where
  "decode_value g v =
     (case group_value g v of
        Inl e \<Rightarrow> Inl e
      | Inr gv \<Rightarrow> Inr (dict_get (value_map g) gv))"

definition is_positive_by_key :: "bitgroup \<Rightarrow> int \<Rightarrow> pyval \<Rightarrow> error + bool" where
  "is_positive_by_key g v key =
     (case is_int key of
        Inl e \<Rightarrow> Inl e
      | Inr False \<Rightarrow> Inl (TypeError ''Bit key must be an integer.'')
      | Inr True \<Rightarrow>
          (case py_int key of
             Inl e \<Rightarrow> Inl e
           | Inr k \<Rightarrow>
               if k \<notin> set (map fst (value_map g))
               then Inl (ValueError ''Bit key is out of range for the bit group.'')
               else (case group_value g v of
                       Inl e \<Rightarrow> Inl e
                     | Inr gv \<Rightarrow> Inr (gv = k))))"

definition BitGroup_to_dict :: "bitgroup \<Rightarrow> (string \<times> (string \<times> string) list) list" where
  "BitGroup_to_dict g =
     [(str_of_int (min_position g) @ ''-'' @ str_of_int (max_position g) @ ''-'' @ description g,
       fold (\<lambda>(k, v) d. dict_set d (str_of_int k) v) (value_map g) [])]"

section \<open>bitmask.py: BitMask\<close>

text \<open>
  An element of the list given to \<open>BitMask.__init__\<close>: a \<open>Bit\<close>, a \<open>BitGroup\<close>, or an
  object of another class.
\<close>

datatype item = IBit bit | IGroup bitgroup | IOther

record bitmask =
  bits :: "bitgroup list"
  total :: int

text \<open>
  \<open>bit.to_bit_group(description=bit.positive) if isinstance(bit, Bit) else bit\<close>; the
  result \<open>None\<close> stands for an object that is not a \<open>BitGroup\<close>.
\<close>

definition promote :: "item \<Rightarrow> error + bitgroup option" where
  "promote x =
     (case x of
        IBit b \<Rightarrow>
          (case to_bit_group b (positive b) of Inl e \<Rightarrow> Inl e | Inr g \<Rightarrow> Inr (Some g))
      | IGroup g \<Rightarrow> Inr (Some g)
      | IOther \<Rightarrow> Inr None)"

text \<open>The first loop of \<open>BitMask.__init__\<close>, with \<open>_bits\<close> and \<open>_descriptions\<close> so far.\<close>

fun promote_all :: "item list \<Rightarrow> bitgroup list \<Rightarrow> string list \<Rightarrow> error + bitgroup list" where
  "promote_all [] bs ds = Inr bs"
| "promote_all (x # xs) bs ds =
     (case promote x of
        Inl e \<Rightarrow> Inl e
      | Inr None \<Rightarrow> Inl (TypeError ''Bits must be a list of Bit or BitGroup.'')
      | Inr (Some g) \<Rightarrow>
          if description g \<in> set ds
          then Inl (ValueError ''Bit description is duplicated in the bitmask.'')
          else promote_all xs (bs @ [g]) (ds @ [description g]))"

text \<open>The inner and the outer loop of the overlap check, with \<open>all_positions\<close> so far.\<close>

fun add_positions :: "int list \<Rightarrow> int list \<Rightarrow> error + int list" where
  "add_positions [] ap = Inr ap"
| "add_positions (p # ps) ap =
     (if p \<in> set ap then Inl (ValueError ''Bit position is duplicated in the bitmask.'')
      else add_positions ps (ap @ [p]))"

fun check_overlap :: "bitgroup list \<Rightarrow> int list \<Rightarrow> error + int list" where
  "check_overlap [] ap = Inr ap"
| "check_overlap (g # gs) ap =
     (case add_positions [min_position g..max_position g] ap of
        Inl e \<Rightarrow> Inl e
      | Inr ap' \<Rightarrow> check_overlap gs ap')"

text \<open>
  \<open>total or (self.bits[-1].max_position + 1)\<close>: the default is taken for \<open>None\<close> and
  for \<open>0\<close>; indexing the empty list raises \<open>IndexError\<close>.
\<close>

definition BitMask_init :: "item list \<Rightarrow> int option \<Rightarrow> error + bitmask" where
  "BitMask_init xs tot =
     (case promote_all xs [] [] of
        Inl e \<Rightarrow> Inl e
      | Inr bs \<Rightarrow>
          (case check_overlap bs [] of
             Inl e \<Rightarrow> Inl e
           | Inr ap \<Rightarrow>
               if tot \<noteq> None \<and> tot \<noteq> Some 0 then Inr \<lparr>bits = bs, total = the tot\<rparr>
               else if bs = [] then Inl (IndexError ''list index out of range'')
               else Inr \<lparr>bits = bs, total = max_position (last bs) + 1\<rparr>))"

text \<open>\<open>BitMask.to_dict\<close>: \<open>final.update(group.to_dict())\<close> for each group in turn.\<close>

definition dict_update :: "('k \<times> 'v) list \<Rightarrow> ('k \<times> 'v) list \<Rightarrow> ('k \<times> 'v) list" where
  "dict_update d e = fold (\<lambda>(k, v) d. dict_set d k v) e d"

definition BitMask_to_dict :: "bitmask \<Rightarrow> (string \<times> (string \<times> string) list) list" where
  "BitMask_to_dict m = fold (\<lambda>g final. dict_update final (BitGroup_to_dict g)) (bits m) []"

text \<open>
  \<open>BitMask.from_dict\<close>: \<open>int_keys\<close> is the comprehension \<open>{int(k): v for k, v in
  value.items()}\<close>, \<open>from_dict_loop\<close> the loop that builds the groups.
\<close>

fun int_keys :: "(string \<times> string) list \<Rightarrow> (int \<times> string) list \<Rightarrow> error + (int \<times> string) list" where
  "int_keys [] acc = Inr acc"
| "int_keys ((k, v) # rest) acc =
     (case int_of_str k of
        None \<Rightarrow> Inl (ValueError ''invalid literal for int() with base 10'')
      | Some n \<Rightarrow> int_keys rest (dict_set acc n v))"

definition group_of_entry :: "string \<Rightarrow> (string \<times> string) list \<Rightarrow> error + bitgroup" where
  "group_of_entry k val =
     (case split2 k of
        [start, end, descr] \<Rightarrow>
          (case int_of_str start of
             None \<Rightarrow> Inl (ValueError ''invalid literal for int() with base 10'')
           | Some s \<Rightarrow>
          (case int_of_str end of
             None \<Rightarrow> Inl (ValueError ''invalid literal for int() with base 10'')
           | Some e \<Rightarrow>
          (case int_keys val [] of
             Inl err \<Rightarrow> Inl err
           | Inr vm \<Rightarrow>
               BitGroup_init descr (PInt s) (PInt e) (map (\<lambda>(n, v). (PInt n, v)) vm))))
      | _ \<Rightarrow> Inl (ValueError ''not enough values to unpack (expected 3)''))"

fun from_dict_loop :: "schema \<Rightarrow> bitgroup list \<Rightarrow> error + bitgroup list" where
  "from_dict_loop [] groups = Inr groups"
| "from_dict_loop ((k, val) # rest) groups =
     (case group_of_entry k val of
        Inl e \<Rightarrow> Inl e
      | Inr g \<Rightarrow> from_dict_loop rest (groups @ [g]))"

definition BitMask_from_dict :: "(key \<times> info) list \<Rightarrow> error + bitmask" where
  "BitMask_from_dict bits_info =
     (case format_bits_info bits_info of
        Inl e \<Rightarrow> Inl e
      | Inr formatted \<Rightarrow>
          (case from_dict_loop formatted [] of
             Inl e \<Rightarrow> Inl e
           | Inr groups \<Rightarrow> BitMask_init (map IGroup groups) None))"

section \<open>bithandler.py\<close>

record bithandler =
  hbits :: schema
  all_bits_cache :: "int list option"
  bit_length :: int

text \<open>
  \<open>helpers.decode_key(key)\<close>, as \<open>BitHandler.all_bits\<close> writes it. The module
  \<open>helpers.py\<close> binds the names \<open>BANNED_BAND_CHAR\<close>, \<open>format_bandname\<close>,
  \<open>is_int\<close>, \<open>is_str\<close>, \<open>format_bit_key\<close>, \<open>format_bit_value\<close> and
  \<open>format_bits_info\<close>, and no \<open>decode_key\<close>: reading the attribute raises
  \<open>AttributeError\<close> before anything is called, whatever the key. The message is
  Python's, without its quotation marks.
\<close>

definition decode_key :: "string \<Rightarrow> error + int list" where
  "decode_key k = Inl (AttributeError ''module eebit.helpers has no attribute decode_key'')"

text \<open>The inner and the outer loop of the property \<open>all_bits\<close>, with \<open>allbits\<close> so far.\<close>

fun add_bits :: "int list \<Rightarrow> int list \<Rightarrow> error + int list" where
  "add_bits [] allbits = Inr allbits"
| "add_bits (b # bs) allbits =
     (if b \<in> set allbits then Inl (ValueError ''bit is duplicated!'')
      else add_bits bs (allbits @ [b]))"

fun all_bits_loop :: "string list \<Rightarrow> int list \<Rightarrow> error + int list" where
  "all_bits_loop [] allbits = Inr allbits"
| "all_bits_loop (k # ks) allbits =
     (case decode_key k of
        Inl e \<Rightarrow> Inl e
      | Inr decoded \<Rightarrow>
          (case add_bits decoded allbits of
             Inl e \<Rightarrow> Inl e
           | Inr allbits' \<Rightarrow> all_bits_loop ks allbits'))"

text \<open>
  The cached property: it returns its value and the handler, whose cache is filled by the
  first successful call.
\<close>

definition all_bits :: "bithandler \<Rightarrow> (error + int list) \<times> bithandler" where
  "all_bits h =
     (case all_bits_cache h of
        Some xs \<Rightarrow> (Inr xs, h)
      | None \<Rightarrow>
          (case all_bits_loop (map fst (hbits h)) [] of
             Inl e \<Rightarrow> (Inl e, h)
           | Inr xs \<Rightarrow> (Inr xs, h\<lparr>all_bits_cache := Some xs\<rparr>)))"

text \<open>
  \<open>BitHandler.__init__(bits, bit_length=None)\<close>. \<open>not bit_length\<close> holds for \<open>None\<close>
  and for \<open>0\<close>; only then is \<open>all_bits\<close> read, and \<open>min\<close> of an empty list raises.
  The field \<open>bit_length\<close> holds \<open>0\<close> until it is assigned.
\<close>

definition BitHandler_init :: "(key \<times> info) list \<Rightarrow> int option \<Rightarrow> error + bithandler" where
  "BitHandler_init raw bl =
     (case format_bits_info raw of
        Inl e \<Rightarrow> Inl e
      | Inr b \<Rightarrow>
          if bl \<noteq> None \<and> bl \<noteq> Some 0
          then Inr \<lparr>hbits = b, all_bits_cache = None, bit_length = the bl\<rparr>
          else
            (case all_bits \<lparr>hbits = b, all_bits_cache = None, bit_length = 0\<rparr> of
               (Inl e, h) \<Rightarrow> Inl e
             | (Inr xs, h) \<Rightarrow>
                 if xs = [] then Inl (ValueError ''min() arg is an empty sequence'')
                 else Inr (h\<lparr>bit_length := int (length [Min (set xs)..Max (set xs)])\<rparr>)))"

section \<open>Requests to the external engine\<close>

text \<open>
  The engine's image operations are lazy: a call builds an expression and computes
  nothing. An image is therefore the expression that the code has built.
\<close>

datatype band = BandIndex int | BandName string

datatype ee_image =
    EImage string
  | EConst int
  | ESelect ee_image band
  | ERightShift ee_image ee_image
  | ELeftShift ee_image ee_image
  | EBitwiseXor ee_image ee_image
  | EBitwiseAnd ee_image ee_image
  | EAdd ee_image ee_image
  | EEq ee_image ee_image
  | ERename ee_image string
  | EFromList "ee_image list"

text \<open>\<open>BitHandler.decode_image\<close>: the loop over the values of one entry, then over the entries.\<close>

fun decode_values ::
  "ee_image \<Rightarrow> (string \<times> string) list \<Rightarrow> ee_image list \<Rightarrow> error + ee_image list"
where
  "decode_values decoded [] masks = Inr masks"
| "decode_values decoded ((pos, val) # rest) masks =
     (case int_of_str pos of
        None \<Rightarrow> Inl (ValueError ''invalid literal for int() with base 10'')
      | Some p \<Rightarrow> decode_values decoded rest (masks @ [ERename (EEq (EConst p) decoded) val]))"

fun decode_loop :: "ee_image \<Rightarrow> schema \<Rightarrow> ee_image list \<Rightarrow> error + ee_image list" where
  "decode_loop to_decode [] masks = Inr masks"
| "decode_loop to_decode ((positions, vals) # rest) masks =
     (case split_all positions of
        [p] \<Rightarrow> Inl (ValueError ''not enough values to unpack (expected 2, got 1)'')
      | [start, end] \<Rightarrow>
          (case int_of_str start of
             None \<Rightarrow> Inl (ValueError ''invalid literal for int() with base 10'')
           | Some s \<Rightarrow>
          (case int_of_str end of
             None \<Rightarrow> Inl (ValueError ''invalid literal for int() with base 10'')
           | Some e \<Rightarrow>
              (case decode_values
                      (ERightShift
                         (EBitwiseXor
                            (ELeftShift (ERightShift to_decode (EAdd (EConst e) (EConst 1)))
                               (EAdd (EConst e) (EConst 1)))
                            to_decode)
                         (EConst s))
                      vals masks of
                 Inl err \<Rightarrow> Inl err
               | Inr masks' \<Rightarrow> decode_loop to_decode rest masks')))
      | _ \<Rightarrow> Inl (ValueError ''too many values to unpack (expected 2)''))"

definition decode_image :: "bithandler \<Rightarrow> ee_image \<Rightarrow> band \<Rightarrow> error + ee_image" where
  "decode_image h img b =
     (case decode_loop (ESelect img b) (hbits h) [] of
        Inl e \<Rightarrow> Inl e
      | Inr masks \<Rightarrow> Inr (EFromList masks))"

text \<open>\<open>BitGroup.get_mask_by_bit_value\<close>, \<open>BitGroup.get_masks\<close> and \<open>BitMask.get_masks\<close>.\<close>

definition get_key_for_bit_value :: "bitgroup \<Rightarrow> string \<Rightarrow> error + int" where
  "get_key_for_bit_value g val =
     (case dict_get (reverse_value_map g) val of
        None \<Rightarrow> Inl (ValueError ''Key for value not found in the value map.'')
      | Some k \<Rightarrow> Inr k)"

definition get_mask_by_bit_value :: "bitgroup \<Rightarrow> ee_image \<Rightarrow> string \<Rightarrow> error + ee_image" where
  "get_mask_by_bit_value g img val =
     (case get_key_for_bit_value g val of
        Inl e \<Rightarrow> Inl e
      | Inr k \<Rightarrow>
          (case group_mask g of
             Inl e \<Rightarrow> Inl e
           | Inr m \<Rightarrow>
               Inr (ERename
                      (EEq (EBitwiseAnd (ERightShift img (EConst (min_position g))) (EConst m))
                         (EConst k))
                      (description g @ '' - '' @ val))))"

fun group_masks_loop ::
  "bitgroup \<Rightarrow> ee_image \<Rightarrow> (int \<times> string) list \<Rightarrow> ee_image list \<Rightarrow> error + ee_image list"
where
  "group_masks_loop g img [] masks = Inr masks"
| "group_masks_loop g img ((k, val) # rest) masks =
     (case get_mask_by_bit_value g img val of
        Inl e \<Rightarrow> Inl e
      | Inr msk \<Rightarrow> group_masks_loop g img rest (masks @ [msk]))"

definition BitGroup_get_masks :: "bitgroup \<Rightarrow> ee_image \<Rightarrow> error + ee_image" where
  "BitGroup_get_masks g img =
     (case group_masks_loop g img (value_map g) [] of
        Inl e \<Rightarrow> Inl e
      | Inr masks \<Rightarrow> Inr (EFromList masks))"

fun mask_masks_loop :: "bitgroup list \<Rightarrow> ee_image \<Rightarrow> ee_image list \<Rightarrow> error + ee_image list" where
  "mask_masks_loop [] img masks = Inr masks"
| "mask_masks_loop (g # gs) img masks =
     (case BitGroup_get_masks g img of
        Inl e \<Rightarrow> Inl e
      | Inr group_masks \<Rightarrow> mask_masks_loop gs img (masks @ [group_masks]))"

definition BitMask_get_masks :: "bitmask \<Rightarrow> ee_image \<Rightarrow> error + ee_image" where
  "BitMask_get_masks m img =
     (case mask_masks_loop (bits m) img [] of
        Inl e \<Rightarrow> Inl e
      | Inr masks \<Rightarrow> Inr (EFromList masks))"

section \<open>Notions of the specification\<close>

text \<open>
  The highest position claimed by a list of groups: the largest \<open>max_position\<close>, a
  group's range ending at its \<open>max_position\<close>.
\<close>

definition highest_position :: "bitgroup list \<Rightarrow> int" where
  "highest_position gs = Max (set (map max_position gs))"

text \<open>
  The expansion of the range of a canonical key \<open>start-end-name\<close>: the positions from
  \<open>start\<close> to \<open>end\<close>; a string of another form has none.
\<close>

definition key_range :: "string \<Rightarrow> int list" where
  "key_range k =
     (case split2 k of
        [a, b, c] \<Rightarrow>
          (case (int_of_str a, int_of_str b) of
             (Some s, Some e) \<Rightarrow> [s..e]
           | _ \<Rightarrow> [])
      | _ \<Rightarrow> [])"

definition all_positions :: "schema \<Rightarrow> int list" where
  "all_positions sch = concat (map key_range (map fst sch))"

text \<open>
  The positions that an element of the input list of a mask claims, and the description
  under which it enters the mask (a \<open>Bit\<close> is promoted under its positive label, which
  \<open>BitGroup.__init__\<close> puts in lower case).
\<close>

definition item_range :: "item \<Rightarrow> int list" where
  "item_range x =
     (case x of
        IBit b \<Rightarrow> [position b]
      | IGroup g \<Rightarrow> [min_position g..max_position g]
      | IOther \<Rightarrow> [])"

definition item_description :: "item \<Rightarrow> string" where
  "item_description x =
     (case x of
        IBit b \<Rightarrow> lower (positive b)
      | IGroup g \<Rightarrow> description g
      | IOther \<Rightarrow> [])"

text \<open>
  A canonical schema in the strict sense: the keys are pairwise different; each key has
  three parts, of which the first two are integers written as \<open>str\<close> writes them and the
  name is in lower case; the keys of each value dictionary are such integers too, pairwise
  different, and the labels are in lower case. \<open>raw_of\<close> hands such a schema to the
  functions that take a raw one.
\<close>

definition canonical_int :: "string \<Rightarrow> bool" where
  "canonical_int s = (case int_of_str s of None \<Rightarrow> False | Some n \<Rightarrow> str_of_int n = s)"

definition canonical_entry :: "string \<times> (string \<times> string) list \<Rightarrow> bool" where
  "canonical_entry e =
     ((case split2 (fst e) of
         [a, b, c] \<Rightarrow> canonical_int a \<and> canonical_int b \<and> lower c = c
       | _ \<Rightarrow> False)
      \<and> distinct (map fst (snd e))
      \<and> (\<forall>pl \<in> set (snd e). canonical_int (fst pl) \<and> lower (snd pl) = snd pl))"

definition canonical_schema :: "schema \<Rightarrow> bool" where
  "canonical_schema sch = (distinct (map fst sch) \<and> (\<forall>e \<in> set sch. canonical_entry e))"

definition raw_dict :: "(string \<times> string) list \<Rightarrow> (key \<times> string) list" where
  "raw_dict vm = map (\<lambda>pl. (KStr (fst pl), snd pl)) vm"

definition raw_of :: "schema \<Rightarrow> (key \<times> info) list" where
  "raw_of sch = map (\<lambda>e. (KStr (fst e), InfoDict (raw_dict (snd e)))) sch"

section \<open>Properties\<close>

text \<open>
  C10. Building a \<open>BitMask\<close> from the empty list of groups with no \<open>total\<close> does not
  complete and raises none of the validation errors: reading the last element of the
  empty list raises \<open>IndexError\<close>.
\<close>

theorem C10_empty_bitmask_index_error:
  "BitMask_init [] None = Inl (IndexError ''list index out of range'')"
  by (simp add: BitMask_init_def)

subsection \<open>Facts about the model\<close>

lemma py_int_ok_is_int: "py_int v = Inr n \<Longrightarrow> is_int v = Inr True"
  by (simp add: is_int_def)

lemma BitGroup_init_positions:
  assumes "BitGroup_init d mn mx vm = Inr G"
  shows "0 \<le> min_position G \<and> min_position G \<le> max_position G
    \<and> py_int mn = Inr (min_position G) \<and> py_int mx = Inr (max_position G)
    \<and> description G = lower d
    \<and> n_values G = 2 ^ nat (max_position G - min_position G + 1)"
  using assms
  by (auto simp: BitGroup_init_def split: sum.splits bool.splits if_splits)

lemma group_mask_valid:
  assumes "min_position G \<le> max_position G"
  shows "group_mask G = Inr (2 ^ nat (max_position G - min_position G + 1) - 1)"
  using assms by (simp add: group_mask_def py_lshift_def)

lemma group_value_valid:
  assumes "0 \<le> min_position G" "min_position G \<le> max_position G"
  shows "group_value G v =
    Inr (drop_bit (nat (min_position G)) v AND (2 ^ nat (max_position G - min_position G + 1) - 1))"
  using assms by (simp add: group_value_def py_rshift_def group_mask_valid)

lemma and_mask_bounds:
  "0 \<le> (x::int) AND (2 ^ n - 1) \<and> x AND (2 ^ n - 1) < 2 ^ n"
proof -
  have "x AND (2 ^ n - 1) = take_bit n x"
    by (simp add: take_bit_eq_mask mask_eq_exp_minus_1)
  then show ?thesis by simp
qed

lemma dict_set_fresh: "k \<notin> set (map fst d) \<Longrightarrow> dict_set d k v = d @ [(k, v)]"
  by (induction d k v rule: dict_set.induct) auto

lemma validate_value_map_distinct:
  "validate_value_map nv kvs acc = Inr r \<Longrightarrow> distinct (map fst acc) \<Longrightarrow> distinct (map fst r)"
proof (induction kvs arbitrary: acc)
  case Nil
  then show ?case by simp
next
  case (Cons kv kvs)
  obtain k l where kv: "kv = (k, l)" by (cases kv)
  from Cons.prems(1) obtain n where fresh: "n \<notin> set (map fst acc)"
    and r: "validate_value_map nv kvs (dict_set acc n (lower l)) = Inr r"
    by (auto simp: kv split: sum.splits bool.splits if_splits)
  have "distinct (map fst (dict_set acc n (lower l)))"
    using Cons.prems(2) fresh by (simp add: dict_set_fresh)
  from Cons.IH [OF r this] show ?case .
qed

lemma BitGroup_init_distinct:
  "BitGroup_init d mn mx vm = Inr G \<Longrightarrow> distinct (map fst (value_map G))"
  by (auto simp: BitGroup_init_def split: sum.splits bool.splits if_splits
           dest!: validate_value_map_distinct)

subsection \<open>The integer guard\<close>

text \<open>
  C9. Let \<open>int(v)\<close> succeed with the value \<open>n\<close> (\<open>v\<close> an integer, a boolean, a
  numeric string or a finite float) and \<open>int(w)\<close> with \<open>m\<close>. Then \<open>is_int\<close> accepts
  \<open>v\<close>; \<open>Bit.__init__\<close> returns the bit at position \<open>n\<close>; \<open>BitGroup.__init__\<close>
  with the positions \<open>v\<close> and \<open>w\<close> returns the group on the positions \<open>n\<close> to
  \<open>m\<close> whenever it accepts these two integers and the value map; a key \<open>v\<close> of the
  value map is entered as \<open>n\<close>; and \<open>is_positive_by_key\<close> with the key \<open>v\<close>
  compares the extracted value with \<open>n\<close> when \<open>n\<close> is a key of the group, and raises
  the error of an absent key when it is not. Nowhere is \<open>v\<close> rejected for not being an
  integer.
\<close>

theorem C9_int_guard_truncates:
  assumes "py_int v = Inr n" and "py_int w = Inr m"
  shows "is_int v = Inr True
    \<and> Bit_init v p neg =
        Inr \<lparr>position = n, positive = p,
             negative = (case neg of None \<Rightarrow> ''no '' @ p
                         | Some s \<Rightarrow> if s = [] then ''no '' @ p else s)\<rparr>
    \<and> (0 \<le> n \<and> n \<le> m \<and> validate_value_map (2 ^ nat (m - n + 1)) vmap [] = Inr vm
         \<and> vm \<noteq> [] \<and> (n = m \<and> length vm = 1 \<longrightarrow> 1 \<in> fst ` set vm) \<longrightarrow>
        BitGroup_init d v w vmap =
          Inr \<lparr>min_position = n, max_position = m, description = lower d,
               n_values = 2 ^ nat (m - n + 1), value_map = vm,
               reverse_value_map = reverse_map vm []\<rparr>)
    \<and> (is_str l \<and> n \<notin> fst ` set acc \<and> 0 \<le> n \<and> n < nv \<longrightarrow>
        validate_value_map nv [(v, l)] acc = Inr (dict_set acc n (lower l)))
    \<and> (0 \<le> min_position g \<and> min_position g \<le> max_position g
         \<and> n \<in> fst ` set (value_map g) \<longrightarrow>
        is_positive_by_key g x v =
          Inr ((drop_bit (nat (min_position g)) x
                  AND (2 ^ nat (max_position g - min_position g + 1) - 1)) = n))
    \<and> (n \<notin> fst ` set (value_map g) \<longrightarrow>
        is_positive_by_key g x v =
          Inl (ValueError ''Bit key is out of range for the bit group.''))"
proof -
  have iv: "is_int v = Inr True" and iw: "is_int w = Inr True"
    using assms by (simp_all add: py_int_ok_is_int)
  have b: "Bit_init v p neg =
        Inr \<lparr>position = n, positive = p,
             negative = (case neg of None \<Rightarrow> ''no '' @ p
                         | Some s \<Rightarrow> if s = [] then ''no '' @ p else s)\<rparr>"
    by (simp add: Bit_init_def iv assms)
  have g: "BitGroup_init d v w vmap =
          Inr \<lparr>min_position = n, max_position = m, description = lower d,
               n_values = 2 ^ nat (m - n + 1), value_map = vm,
               reverse_value_map = reverse_map vm []\<rparr>"
    if "0 \<le> n" "n \<le> m" "validate_value_map (2 ^ nat (m - n + 1)) vmap [] = Inr vm"
       "vm \<noteq> []" "n = m \<and> length vm = 1 \<longrightarrow> 1 \<in> fst ` set vm"
    using that by (auto simp: BitGroup_init_def iv iw assms)
  have k: "validate_value_map nv [(v, l)] acc = Inr (dict_set acc n (lower l))"
    if "is_str l" "n \<notin> fst ` set acc" "0 \<le> n" "n < nv"
    using that by (simp add: iv assms)
  have p1: "is_positive_by_key g x v =
          Inr ((drop_bit (nat (min_position g)) x
                  AND (2 ^ nat (max_position g - min_position g + 1) - 1)) = n)"
    if "0 \<le> min_position g" "min_position g \<le> max_position g"
       "n \<in> fst ` set (value_map g)"
    using that by (simp add: is_positive_by_key_def iv assms group_value_valid)
  have p2: "is_positive_by_key g x v =
          Inl (ValueError ''Bit key is out of range for the bit group.'')"
    if "n \<notin> fst ` set (value_map g)"
    using that by (simp add: is_positive_by_key_def iv assms)
  show ?thesis using iv b g k p1 p2 by blast
qed

text \<open>
  The float \<open>2.9\<close> is \<open>6530219459687219 * 2 ^ (-51)\<close> and reads as 2, \<open>True\<close> reads
  as 1: \<open>Bit(position=2.9, positive="water")\<close> is the bit at position 2,
  \<open>BitGroup("Cloud levels", True, 2.9, {0: "No clouds", 2.9: "Medium clouds"})\<close> is
  the group on bits 1 to 2 with the keys 0 and 2, and on that group the key \<open>2.9\<close> tests
  for the value 2 and the key \<open>True\<close> is absent.
\<close>

theorem C9_int_guard_truncates_witness:
  "py_int (PFloat (Finite 6530219459687219 (- 51))) = Inr 2
   \<and> py_int (PBool True) = Inr 1
   \<and> is_int (PFloat (Finite 6530219459687219 (- 51))) = Inr True
   \<and> Bit_init (PFloat (Finite 6530219459687219 (- 51))) ''water'' None =
       Inr \<lparr>position = 2, positive = ''water'', negative = ''no water''\<rparr>
   \<and> BitGroup_init ''Cloud levels'' (PBool True) (PFloat (Finite 6530219459687219 (- 51)))
         [(PInt 0, ''No clouds''), ((PFloat (Finite 6530219459687219 (- 51))), ''Medium clouds'')] =
       Inr \<lparr>min_position = 1, max_position = 2, description = ''cloud levels'', n_values = 4,
            value_map = [(0, ''no clouds''), (2, ''medium clouds'')],
            reverse_value_map = [(''no clouds'', 0), (''medium clouds'', 2)]\<rparr>
   \<and> validate_value_map 4 [((PFloat (Finite 6530219459687219 (- 51))), ''Medium clouds'')] [(0, ''no clouds'')] =
       Inr [(0, ''no clouds''), (2, ''medium clouds'')]
   \<and> is_positive_by_key \<lparr>min_position = 1, max_position = 2, description = ''cloud levels'', n_values = 4,
            value_map = [(0, ''no clouds''), (2, ''medium clouds'')],
            reverse_value_map = [(''no clouds'', 0), (''medium clouds'', 2)]\<rparr> 4 (PFloat (Finite 6530219459687219 (- 51))) = Inr True
   \<and> is_positive_by_key \<lparr>min_position = 1, max_position = 2, description = ''cloud levels'', n_values = 4,
            value_map = [(0, ''no clouds''), (2, ''medium clouds'')],
            reverse_value_map = [(''no clouds'', 0), (''medium clouds'', 2)]\<rparr> 4 (PBool True) =
       Inl (ValueError ''Bit key is out of range for the bit group.'')"
proof -
  have h2: "py_int (PFloat (Finite 6530219459687219 (- 51))) = Inr 2"
    by (simp add: trunc_float_def)
  have h1: "py_int (PBool True) = Inr 1" by simp
  have v: "validate_value_map 4
         [(PInt 0, ''No clouds''), ((PFloat (Finite 6530219459687219 (- 51))), ''Medium clouds'')] [] =
       Inr [(0, ''no clouds''), (2, ''medium clouds'')]"
    by code_simp
  have s: "is_str ''Medium clouds''" by code_simp
  have e: "(drop_bit (nat 1) (4::int) AND (2 ^ nat (2 - 1 + 1) - 1)) = 2" by code_simp
  have r: "reverse_map [(0::int, ''no clouds''), (2, ''medium clouds'')] [] =
      [(''no clouds'', 0), (''medium clouds'', 2)]" by simp
  have l: "lower ''Cloud levels'' = ''cloud levels''" "lower ''Medium clouds'' = ''medium clouds''"
    by code_simp+
  note a = C9_int_guard_truncates [OF h2 h2, where p = "''water''" and neg = None]
  note b = C9_int_guard_truncates [OF h1 h2,
      where vmap = "[(PInt 0, ''No clouds''), ((PFloat (Finite 6530219459687219 (- 51))), ''Medium clouds'')]"
        and vm = "[(0, ''no clouds''), (2, ''medium clouds'')]" and d = "''Cloud levels''"]
  note c = C9_int_guard_truncates [OF h2 h2,
      where l = "''Medium clouds''" and acc = "[(0, ''no clouds'')]" and nv = 4
        and g = "\<lparr>min_position = 1, max_position = 2, description = ''cloud levels'', n_values = 4,
            value_map = [(0, ''no clouds''), (2, ''medium clouds'')],
            reverse_value_map = [(''no clouds'', 0), (''medium clouds'', 2)]\<rparr>" and x = 4]
  note d = C9_int_guard_truncates [OF h1 h2,
      where g = "\<lparr>min_position = 1, max_position = 2, description = ''cloud levels'', n_values = 4,
            value_map = [(0, ''no clouds''), (2, ''medium clouds'')],
            reverse_value_map = [(''no clouds'', 0), (''medium clouds'', 2)]\<rparr>" and x = 4]
  have c1: "is_int (PFloat (Finite 6530219459687219 (- 51))) = Inr True" using a by blast
  have c2: "Bit_init (PFloat (Finite 6530219459687219 (- 51))) ''water'' None =
       Inr \<lparr>position = 2, positive = ''water'', negative = ''no water''\<rparr>"
    using a by simp
  have c3: "BitGroup_init ''Cloud levels'' (PBool True) (PFloat (Finite 6530219459687219 (- 51)))
         [(PInt 0, ''No clouds''), ((PFloat (Finite 6530219459687219 (- 51))), ''Medium clouds'')] =
       Inr \<lparr>min_position = 1, max_position = 2, description = ''cloud levels'', n_values = 4,
            value_map = [(0, ''no clouds''), (2, ''medium clouds'')],
            reverse_value_map = [(''no clouds'', 0), (''medium clouds'', 2)]\<rparr>"
    using b v r l by simp
  have c4: "validate_value_map 4 [((PFloat (Finite 6530219459687219 (- 51))), ''Medium clouds'')] [(0, ''no clouds'')] =
       Inr [(0, ''no clouds''), (2, ''medium clouds'')]"
  proof -
    have hyp: "is_str ''Medium clouds'' \<and> (2::int) \<notin> fst ` set [(0, ''no clouds'')]
        \<and> (0::int) \<le> 2 \<and> (2::int) < 4"
      using s by simp
    have ds: "dict_set [(0::int, ''no clouds'')] 2 (lower ''Medium clouds'') =
        [(0, ''no clouds''), (2, ''medium clouds'')]"
      by (simp add: l)
    from c hyp have "validate_value_map 4
        [(PFloat (Finite 6530219459687219 (- 51)), ''Medium clouds'')] [(0, ''no clouds'')] =
        Inr (dict_set [(0::int, ''no clouds'')] 2 (lower ''Medium clouds''))"
      by blast
    then show ?thesis unfolding ds .
  qed
  have c5: "is_positive_by_key \<lparr>min_position = 1, max_position = 2, description = ''cloud levels'', n_values = 4,
            value_map = [(0, ''no clouds''), (2, ''medium clouds'')],
            reverse_value_map = [(''no clouds'', 0), (''medium clouds'', 2)]\<rparr> 4 (PFloat (Finite 6530219459687219 (- 51))) = Inr True"
    using c e by simp
  have c6: "is_positive_by_key \<lparr>min_position = 1, max_position = 2, description = ''cloud levels'', n_values = 4,
            value_map = [(0, ''no clouds''), (2, ''medium clouds'')],
            reverse_value_map = [(''no clouds'', 0), (''medium clouds'', 2)]\<rparr> 4 (PBool True) =
       Inl (ValueError ''Bit key is out of range for the bit group.'')"
    using d by simp
  show ?thesis using h2 h1 c1 c2 c3 c4 c5 c6 by blast
qed

subsection \<open>Decoding a value\<close>

text \<open>
  C7. For a group built by \<open>BitGroup.__init__\<close> and every integer \<open>v\<close>,
  \<open>decode_value\<close> raises nothing and returns what the value map holds for the
  extracted key \<open>(v >> min_position) & group_mask\<close>: the label \<open>l\<close> exactly when the
  map has the entry of that key with \<open>l\<close>, and nothing exactly when the key has no entry.
  When every key below \<open>n_values\<close> has an entry, the result is a label.
\<close>

theorem C7_decode_value_lookup:
  assumes "BitGroup_init d mn mx vm = Inr G"
  shows "decode_value G v =
           Inr (map_of (value_map G)
                  (drop_bit (nat (min_position G)) v
                     AND (2 ^ nat (max_position G - min_position G + 1) - 1)))
     \<and> (\<forall>l. decode_value G v = Inr (Some l) \<longleftrightarrow>
            (drop_bit (nat (min_position G)) v
               AND (2 ^ nat (max_position G - min_position G + 1) - 1), l)
              \<in> set (value_map G))
     \<and> (decode_value G v = Inr None \<longleftrightarrow>
            (drop_bit (nat (min_position G)) v
               AND (2 ^ nat (max_position G - min_position G + 1) - 1))
              \<notin> fst ` set (value_map G))
     \<and> ((\<forall>k. 0 \<le> k \<and> k < n_values G \<longrightarrow> k \<in> fst ` set (value_map G)) \<longrightarrow>
            (\<exists>l. decode_value G v = Inr (Some l)))"
proof -
  from BitGroup_init_positions [OF assms]
  have p: "0 \<le> min_position G" "min_position G \<le> max_position G"
    and nv: "n_values G = 2 ^ nat (max_position G - min_position G + 1)" by auto
  have dist: "distinct (map fst (value_map G))" by (rule BitGroup_init_distinct [OF assms])
  let ?gv = "drop_bit (nat (min_position G)) v
             AND (2 ^ nat (max_position G - min_position G + 1) - 1)"
  have dv: "decode_value G v = Inr (map_of (value_map G) ?gv)"
    by (simp add: decode_value_def group_value_valid [OF p] dict_get_def)
  have b: "0 \<le> ?gv \<and> ?gv < n_values G"
    unfolding nv by (rule and_mask_bounds)
  have s: "map_of (value_map G) ?gv = Some l \<longleftrightarrow> (?gv, l) \<in> set (value_map G)" for l
    using dist by simp
  have a: "map_of (value_map G) ?gv = None \<longleftrightarrow> ?gv \<notin> fst ` set (value_map G)"
    by (simp add: map_of_eq_None_iff)
  have c: "\<exists>l. map_of (value_map G) ?gv = Some l"
    if "\<forall>k. 0 \<le> k \<and> k < n_values G \<longrightarrow> k \<in> fst ` set (value_map G)"
  proof -
    from that b have "?gv \<in> fst ` set (value_map G)" by blast
    then have "map_of (value_map G) ?gv \<noteq> None" by (simp add: map_of_eq_None_iff)
    then show ?thesis by blast
  qed
  show ?thesis
    unfolding dv using s a c by simp
qed

text \<open>
  The group on bits 1 to 2 with the keys 0 and 2 mapped: \<open>0b010\<close> has the extracted key
  1 and decodes to nothing, \<open>0b100\<close> has the key 2 and decodes to its label. The group
  on bit 3 with both keys mapped: \<open>0b1000\<close> and \<open>0b0111\<close> decode to the labels of 1
  and of 0.
\<close>

theorem C7_decode_value_lookup_witness:
  "BitGroup_init ''Cloud levels'' (PInt 1) (PInt 2)
         [(PInt 0, ''no clouds''), (PInt 2, ''medium clouds'')] =
       Inr \<lparr>min_position = 1, max_position = 2, description = ''cloud levels'', n_values = 4,
            value_map = [(0, ''no clouds''), (2, ''medium clouds'')],
            reverse_value_map = [(''no clouds'', 0), (''medium clouds'', 2)]\<rparr>
   \<and> decode_value \<lparr>min_position = 1, max_position = 2, description = ''cloud levels'', n_values = 4,
            value_map = [(0, ''no clouds''), (2, ''medium clouds'')],
            reverse_value_map = [(''no clouds'', 0), (''medium clouds'', 2)]\<rparr> 2 = Inr None
   \<and> decode_value \<lparr>min_position = 1, max_position = 2, description = ''cloud levels'', n_values = 4,
            value_map = [(0, ''no clouds''), (2, ''medium clouds'')],
            reverse_value_map = [(''no clouds'', 0), (''medium clouds'', 2)]\<rparr> 4 = Inr (Some ''medium clouds'')
   \<and> BitGroup_init ''Cloud'' (PInt 3) (PInt 3) [(PInt 0, ''Clear''), (PInt 1, ''Cloud'')] =
       Inr \<lparr>min_position = 3, max_position = 3, description = ''cloud'', n_values = 2,
            value_map = [(0, ''clear''), (1, ''cloud'')],
            reverse_value_map = [(''clear'', 0), (''cloud'', 1)]\<rparr>
   \<and> n_values \<lparr>min_position = 3, max_position = 3, description = ''cloud'', n_values = 2,
            value_map = [(0, ''clear''), (1, ''cloud'')],
            reverse_value_map = [(''clear'', 0), (''cloud'', 1)]\<rparr> = 2
   \<and> map fst (value_map \<lparr>min_position = 3, max_position = 3, description = ''cloud'', n_values = 2,
            value_map = [(0, ''clear''), (1, ''cloud'')],
            reverse_value_map = [(''clear'', 0), (''cloud'', 1)]\<rparr>) = [0, 1]
   \<and> decode_value \<lparr>min_position = 3, max_position = 3, description = ''cloud'', n_values = 2,
            value_map = [(0, ''clear''), (1, ''cloud'')],
            reverse_value_map = [(''clear'', 0), (''cloud'', 1)]\<rparr> 8 = Inr (Some ''cloud'')
   \<and> decode_value \<lparr>min_position = 3, max_position = 3, description = ''cloud'', n_values = 2,
            value_map = [(0, ''clear''), (1, ''cloud'')],
            reverse_value_map = [(''clear'', 0), (''cloud'', 1)]\<rparr> 7 = Inr (Some ''clear'')"
proof -
  have h: "BitGroup_init ''Cloud levels'' (PInt 1) (PInt 2)
         [(PInt 0, ''no clouds''), (PInt 2, ''medium clouds'')] =
       Inr \<lparr>min_position = 1, max_position = 2, description = ''cloud levels'', n_values = 4,
            value_map = [(0, ''no clouds''), (2, ''medium clouds'')],
            reverse_value_map = [(''no clouds'', 0), (''medium clouds'', 2)]\<rparr>"
    by code_simp
  have hb: "BitGroup_init ''Cloud'' (PInt 3) (PInt 3) [(PInt 0, ''Clear''), (PInt 1, ''Cloud'')] =
       Inr \<lparr>min_position = 3, max_position = 3, description = ''cloud'', n_values = 2,
            value_map = [(0, ''clear''), (1, ''cloud'')],
            reverse_value_map = [(''clear'', 0), (''cloud'', 1)]\<rparr>"
    by code_simp
  have e2: "(drop_bit (nat 1) (2::int) AND (2 ^ nat (2 - 1 + 1) - 1)) = 1" by code_simp
  have e4: "(drop_bit (nat 1) (4::int) AND (2 ^ nat (2 - 1 + 1) - 1)) = 2" by code_simp
  have e8: "(drop_bit (nat 3) (8::int) AND (2 ^ nat (3 - 3 + 1) - 1)) = 1" by code_simp
  have e7: "(drop_bit (nat 3) (7::int) AND (2 ^ nat (3 - 3 + 1) - 1)) = 0" by code_simp
  have full: "\<forall>k. 0 \<le> k \<and> k < n_values \<lparr>min_position = 3, max_position = 3, description = ''cloud'', n_values = 2,
            value_map = [(0, ''clear''), (1, ''cloud'')],
            reverse_value_map = [(''clear'', 0), (''cloud'', 1)]\<rparr> \<longrightarrow> k \<in> fst ` set (value_map \<lparr>min_position = 3, max_position = 3, description = ''cloud'', n_values = 2,
            value_map = [(0, ''clear''), (1, ''cloud'')],
            reverse_value_map = [(''clear'', 0), (''cloud'', 1)]\<rparr>)"
  proof (intro allI impI)
    fix k :: int
    assume "0 \<le> k \<and> k < n_values \<lparr>min_position = 3, max_position = 3, description = ''cloud'', n_values = 2,
            value_map = [(0, ''clear''), (1, ''cloud'')],
            reverse_value_map = [(''clear'', 0), (''cloud'', 1)]\<rparr>"
    then have "k = 0 \<or> k = 1" by auto
    then show "k \<in> fst ` set (value_map \<lparr>min_position = 3, max_position = 3, description = ''cloud'', n_values = 2,
            value_map = [(0, ''clear''), (1, ''cloud'')],
            reverse_value_map = [(''clear'', 0), (''cloud'', 1)]\<rparr>)" by auto
  qed
  have c1: "decode_value \<lparr>min_position = 1, max_position = 2, description = ''cloud levels'', n_values = 4,
            value_map = [(0, ''no clouds''), (2, ''medium clouds'')],
            reverse_value_map = [(''no clouds'', 0), (''medium clouds'', 2)]\<rparr> 2 = Inr None"
    using C7_decode_value_lookup [OF h, of 2] e2 by simp
  have c2: "decode_value \<lparr>min_position = 1, max_position = 2, description = ''cloud levels'', n_values = 4,
            value_map = [(0, ''no clouds''), (2, ''medium clouds'')],
            reverse_value_map = [(''no clouds'', 0), (''medium clouds'', 2)]\<rparr> 4 = Inr (Some ''medium clouds'')"
    using C7_decode_value_lookup [OF h, of 4] e4 by simp
  have c3: "decode_value \<lparr>min_position = 3, max_position = 3, description = ''cloud'', n_values = 2,
            value_map = [(0, ''clear''), (1, ''cloud'')],
            reverse_value_map = [(''clear'', 0), (''cloud'', 1)]\<rparr> 8 = Inr (Some ''cloud'')"
    using C7_decode_value_lookup [OF hb, of 8] e8 full by simp
  have c4: "decode_value \<lparr>min_position = 3, max_position = 3, description = ''cloud'', n_values = 2,
            value_map = [(0, ''clear''), (1, ''cloud'')],
            reverse_value_map = [(''clear'', 0), (''cloud'', 1)]\<rparr> 7 = Inr (Some ''clear'')"
    using C7_decode_value_lookup [OF hb, of 7] e7 full by simp
  show ?thesis using h hb c1 c2 c3 c4 by simp
qed

subsection \<open>Testing a key\<close>

text \<open>
  C3, as stated, fails: the two failures of \<open>is_positive_by_key\<close> are of different
  kinds. On the group over bits 1 to 2 with keys 0 and 2, the key \<open>"x"\<close>, which is not
  an integer, raises \<open>TypeError\<close>, and the absent key 1 raises \<open>ValueError\<close>.
\<close>

theorem C3_key_errors_differ_counterexample:
  "is_positive_by_key
     \<lparr>min_position = 1, max_position = 2, description = ''cloud levels'', n_values = 4,
      value_map = [(0, ''no clouds''), (2, ''medium clouds'')],
      reverse_value_map = [(''no clouds'', 0), (''medium clouds'', 2)]\<rparr> 4 (PStr ''x'')
     = Inl (TypeError ''Bit key must be an integer.'')
   \<and> is_positive_by_key
     \<lparr>min_position = 1, max_position = 2, description = ''cloud levels'', n_values = 4,
      value_map = [(0, ''no clouds''), (2, ''medium clouds'')],
      reverse_value_map = [(''no clouds'', 0), (''medium clouds'', 2)]\<rparr> 4 (PInt 1)
     = Inl (ValueError ''Bit key is out of range for the bit group.'')"
  by code_simp

text \<open>
  C3, amended. For a group built by \<open>BitGroup.__init__\<close>, an integer value \<open>v\<close> and a
  key, by the four outcomes of \<open>int(key)\<close>: when it is a key of the value map, the
  result is true iff \<open>(v >> min_position) & group_mask\<close> equals it; when it is an
  integer that is not a key of the value map, the call raises \<open>ValueError\<close>; when
  \<open>int(key)\<close> raises \<open>ValueError\<close>, the call raises \<open>TypeError\<close>; and when
  \<open>int(key)\<close> raises another exception, the call raises that exception.
\<close>

theorem C3_is_positive_by_key:
  assumes "BitGroup_init d mn mx vm = Inr G"
  shows "(\<forall>k. py_int key = Inr k \<and> k \<in> fst ` set (value_map G) \<longrightarrow>
            is_positive_by_key G v key =
              Inr ((drop_bit (nat (min_position G)) v
                      AND (2 ^ nat (max_position G - min_position G + 1) - 1)) = k))
     \<and> (\<forall>k. py_int key = Inr k \<and> k \<notin> fst ` set (value_map G) \<longrightarrow>
            is_positive_by_key G v key =
              Inl (ValueError ''Bit key is out of range for the bit group.''))
     \<and> (\<forall>msg. py_int key = Inl (ValueError msg) \<longrightarrow>
            is_positive_by_key G v key = Inl (TypeError ''Bit key must be an integer.''))
     \<and> (\<forall>e. py_int key = Inl e \<and> (\<forall>msg. e \<noteq> ValueError msg) \<longrightarrow>
            is_positive_by_key G v key = Inl e)"
proof -
  from BitGroup_init_positions [OF assms]
  have p: "0 \<le> min_position G" "min_position G \<le> max_position G" by auto
  show ?thesis
    by (auto simp: is_positive_by_key_def is_int_def group_value_valid [OF p]
             split: error.splits)
qed

text \<open>
  The group on bits 1 to 2 with the keys 0 and 2, on the value \<open>0b100\<close>, whose bits 1
  to 2 hold 2: the keys \<open>"2"\<close> and \<open>"0"\<close> are tested, the key 1 is absent, the
  key \<open>"x"\<close> is no integer, and for the infinite float and for \<open>None\<close> the exception
  of \<open>int\<close> comes out.
\<close>

theorem C3_is_positive_by_key_witness:
  "BitGroup_init ''Cloud levels'' (PInt 1) (PInt 2)
         [(PInt 0, ''no clouds''), (PInt 2, ''medium clouds'')] =
       Inr \<lparr>min_position = 1, max_position = 2, description = ''cloud levels'', n_values = 4,
            value_map = [(0, ''no clouds''), (2, ''medium clouds'')],
            reverse_value_map = [(''no clouds'', 0), (''medium clouds'', 2)]\<rparr>
   \<and> is_positive_by_key \<lparr>min_position = 1, max_position = 2, description = ''cloud levels'', n_values = 4,
            value_map = [(0, ''no clouds''), (2, ''medium clouds'')],
            reverse_value_map = [(''no clouds'', 0), (''medium clouds'', 2)]\<rparr> 4 (PStr ''2'') = Inr True
   \<and> is_positive_by_key \<lparr>min_position = 1, max_position = 2, description = ''cloud levels'', n_values = 4,
            value_map = [(0, ''no clouds''), (2, ''medium clouds'')],
            reverse_value_map = [(''no clouds'', 0), (''medium clouds'', 2)]\<rparr> 4 (PStr ''0'') = Inr False
   \<and> is_positive_by_key \<lparr>min_position = 1, max_position = 2, description = ''cloud levels'', n_values = 4,
            value_map = [(0, ''no clouds''), (2, ''medium clouds'')],
            reverse_value_map = [(''no clouds'', 0), (''medium clouds'', 2)]\<rparr> 4 (PInt 1) =
       Inl (ValueError ''Bit key is out of range for the bit group.'')
   \<and> is_positive_by_key \<lparr>min_position = 1, max_position = 2, description = ''cloud levels'', n_values = 4,
            value_map = [(0, ''no clouds''), (2, ''medium clouds'')],
            reverse_value_map = [(''no clouds'', 0), (''medium clouds'', 2)]\<rparr> 4 (PStr ''x'') = Inl (TypeError ''Bit key must be an integer.'')
   \<and> is_positive_by_key \<lparr>min_position = 1, max_position = 2, description = ''cloud levels'', n_values = 4,
            value_map = [(0, ''no clouds''), (2, ''medium clouds'')],
            reverse_value_map = [(''no clouds'', 0), (''medium clouds'', 2)]\<rparr> 4 (PFloat Inf) =
       Inl (OverflowError ''cannot convert float infinity to integer'')
   \<and> is_positive_by_key \<lparr>min_position = 1, max_position = 2, description = ''cloud levels'', n_values = 4,
            value_map = [(0, ''no clouds''), (2, ''medium clouds'')],
            reverse_value_map = [(''no clouds'', 0), (''medium clouds'', 2)]\<rparr> 4 PNone =
       Inl (TypeError ''int() argument must be a string or a number'')"
proof -
  have h: "BitGroup_init ''Cloud levels'' (PInt 1) (PInt 2)
         [(PInt 0, ''no clouds''), (PInt 2, ''medium clouds'')] =
       Inr \<lparr>min_position = 1, max_position = 2, description = ''cloud levels'', n_values = 4,
            value_map = [(0, ''no clouds''), (2, ''medium clouds'')],
            reverse_value_map = [(''no clouds'', 0), (''medium clouds'', 2)]\<rparr>"
    by code_simp
  have k2: "py_int (PStr ''2'') = Inr 2" by code_simp
  have k0: "py_int (PStr ''0'') = Inr 0" by code_simp
  have kx: "py_int (PStr ''x'') = Inl (ValueError ''invalid literal for int() with base 10'')"
    by code_simp
  have e4: "(drop_bit (nat 1) (4::int) AND (2 ^ nat (2 - 1 + 1) - 1)) = 2" by code_simp
  have c1: "is_positive_by_key \<lparr>min_position = 1, max_position = 2, description = ''cloud levels'', n_values = 4,
            value_map = [(0, ''no clouds''), (2, ''medium clouds'')],
            reverse_value_map = [(''no clouds'', 0), (''medium clouds'', 2)]\<rparr> 4 (PStr ''2'') = Inr True"
    using C3_is_positive_by_key [OF h, of "PStr ''2''" 4] k2 e4 by simp
  have c2: "is_positive_by_key \<lparr>min_position = 1, max_position = 2, description = ''cloud levels'', n_values = 4,
            value_map = [(0, ''no clouds''), (2, ''medium clouds'')],
            reverse_value_map = [(''no clouds'', 0), (''medium clouds'', 2)]\<rparr> 4 (PStr ''0'') = Inr False"
    using C3_is_positive_by_key [OF h, of "PStr ''0''" 4] k0 e4 by simp
  have c3: "is_positive_by_key \<lparr>min_position = 1, max_position = 2, description = ''cloud levels'', n_values = 4,
            value_map = [(0, ''no clouds''), (2, ''medium clouds'')],
            reverse_value_map = [(''no clouds'', 0), (''medium clouds'', 2)]\<rparr> 4 (PInt 1) =
       Inl (ValueError ''Bit key is out of range for the bit group.'')"
    using C3_is_positive_by_key [OF h, of "PInt 1" 4] by simp
  have c4: "is_positive_by_key \<lparr>min_position = 1, max_position = 2, description = ''cloud levels'', n_values = 4,
            value_map = [(0, ''no clouds''), (2, ''medium clouds'')],
            reverse_value_map = [(''no clouds'', 0), (''medium clouds'', 2)]\<rparr> 4 (PStr ''x'') = Inl (TypeError ''Bit key must be an integer.'')"
    using C3_is_positive_by_key [OF h, of "PStr ''x''" 4] kx by simp
  have c5: "is_positive_by_key \<lparr>min_position = 1, max_position = 2, description = ''cloud levels'', n_values = 4,
            value_map = [(0, ''no clouds''), (2, ''medium clouds'')],
            reverse_value_map = [(''no clouds'', 0), (''medium clouds'', 2)]\<rparr> 4 (PFloat Inf) =
       Inl (OverflowError ''cannot convert float infinity to integer'')"
    using C3_is_positive_by_key [OF h, of "PFloat Inf" 4] by simp
  have c6: "is_positive_by_key \<lparr>min_position = 1, max_position = 2, description = ''cloud levels'', n_values = 4,
            value_map = [(0, ''no clouds''), (2, ''medium clouds'')],
            reverse_value_map = [(''no clouds'', 0), (''medium clouds'', 2)]\<rparr> 4 PNone =
       Inl (TypeError ''int() argument must be a string or a number'')"
    using C3_is_positive_by_key [OF h, of PNone 4] by simp
  show ?thesis using h c1 c2 c3 c4 c5 c6 by blast
qed

subsection \<open>The total of a bit mask\<close>

lemma promote_Some:
  "promote x = Inr (Some g) \<longleftrightarrow>
     (x = IGroup g \<or> (\<exists>b. x = IBit b \<and> to_bit_group b (positive b) = Inr g))"
  by (auto simp: promote_def split: item.splits sum.splits)

lemma to_bit_group_positions:
  "to_bit_group b d = Inr g \<Longrightarrow>
     min_position g = position b \<and> max_position g = position b \<and> description g = lower d"
  by (auto simp: to_bit_group_def dest!: BitGroup_init_positions)

lemma promote_all_last:
  "promote_all xs bs ds = Inr r \<Longrightarrow> xs \<noteq> [] \<Longrightarrow>
     r \<noteq> [] \<and> (\<forall>g. last xs = IGroup g \<longrightarrow> last r = g)
     \<and> (\<forall>b. last xs = IBit b \<longrightarrow> max_position (last r) = position b)"
proof (induction xs arbitrary: bs ds)
  case Nil
  then show ?case by simp
next
  case (Cons x xs)
  from Cons.prems obtain g where g: "promote x = Inr (Some g)"
    and r: "promote_all xs (bs @ [g]) (ds @ [description g]) = Inr r"
    by (auto split: sum.splits option.splits if_splits)
  show ?case
  proof (cases "xs = []")
    case True
    with r have "r = bs @ [g]" by simp
    with g True show ?thesis
      by (auto simp: promote_Some dest: to_bit_group_positions)
  next
    case False
    from Cons.IH [OF r False] False show ?thesis by simp
  qed
qed

text \<open>
  C5, amended. With no \<open>total\<close> given, the total of the mask is the \<open>max_position\<close> of
  the last element of the input list, plus 1 (the position plus 1 when that element is a
  \<open>Bit\<close>); this is the highest claimed position plus 1 when no group ends above the
  last one.
\<close>

theorem C5_total_is_last_group:
  assumes "BitMask_init xs None = Inr m"
  shows "xs \<noteq> [] \<and> bits m \<noteq> []
     \<and> total m = max_position (last (bits m)) + 1
     \<and> (\<forall>g. last xs = IGroup g \<longrightarrow> total m = max_position g + 1)
     \<and> (\<forall>b. last xs = IBit b \<longrightarrow> total m = position b + 1)
     \<and> ((\<forall>g \<in> set (bits m). max_position g \<le> max_position (last (bits m)))
          \<longrightarrow> total m = highest_position (bits m) + 1)"
proof -
  from assms obtain bs where pa: "promote_all xs [] [] = Inr bs"
    and ne: "bs \<noteq> []" and m: "m = \<lparr>bits = bs, total = max_position (last bs) + 1\<rparr>"
    by (auto simp: BitMask_init_def split: sum.splits if_splits)
  have xne: "xs \<noteq> []" using pa ne by (cases xs) auto
  note l = promote_all_last [OF pa xne]
  have hp: "(\<forall>g \<in> set bs. max_position g \<le> max_position (last bs))
       \<longrightarrow> highest_position bs = max_position (last bs)"
  proof
    assume a: "\<forall>g \<in> set bs. max_position g \<le> max_position (last bs)"
    show "highest_position bs = max_position (last bs)"
      unfolding highest_position_def
      by (rule Max_eqI) (use a ne in auto)
  qed
  show ?thesis using xne ne l hp by (simp add: m)
qed


text \<open>
  C5, as stated, fails: for the group on bits 4 to 5 followed by the group on bits 1 to 2
  the total is 3, and the highest claimed position plus 1 is 6.
\<close>

theorem C5_total_counterexample:
  "BitGroup_init ''b'' (PInt 4) (PInt 5) [(PInt 1, ''x'')] = Inr \<lparr>min_position = 4, max_position = 5, description = ''b'', n_values = 4,
        value_map = [(1, ''x'')], reverse_value_map = [(''x'', 1)]\<rparr>
   \<and> BitGroup_init ''a'' (PInt 1) (PInt 2) [(PInt 1, ''y'')] = Inr \<lparr>min_position = 1, max_position = 2, description = ''a'', n_values = 4,
        value_map = [(1, ''y'')], reverse_value_map = [(''y'', 1)]\<rparr>
   \<and> BitMask_init [IGroup \<lparr>min_position = 4, max_position = 5, description = ''b'', n_values = 4,
        value_map = [(1, ''x'')], reverse_value_map = [(''x'', 1)]\<rparr>, IGroup \<lparr>min_position = 1, max_position = 2, description = ''a'', n_values = 4,
        value_map = [(1, ''y'')], reverse_value_map = [(''y'', 1)]\<rparr>] None = Inr \<lparr>bits = [\<lparr>min_position = 4, max_position = 5, description = ''b'', n_values = 4,
        value_map = [(1, ''x'')], reverse_value_map = [(''x'', 1)]\<rparr>, \<lparr>min_position = 1, max_position = 2, description = ''a'', n_values = 4,
        value_map = [(1, ''y'')], reverse_value_map = [(''y'', 1)]\<rparr>], total = 3\<rparr>
   \<and> highest_position [\<lparr>min_position = 4, max_position = 5, description = ''b'', n_values = 4,
        value_map = [(1, ''x'')], reverse_value_map = [(''x'', 1)]\<rparr>, \<lparr>min_position = 1, max_position = 2, description = ''a'', n_values = 4,
        value_map = [(1, ''y'')], reverse_value_map = [(''y'', 1)]\<rparr>] + 1 = 6"
  by code_simp

text \<open>The same two groups in ascending order: the total is 6.\<close>

theorem C5_total_is_last_group_witness:
  "BitMask_init [IGroup \<lparr>min_position = 1, max_position = 2, description = ''a'', n_values = 4,
        value_map = [(1, ''y'')], reverse_value_map = [(''y'', 1)]\<rparr>, IGroup \<lparr>min_position = 4, max_position = 5, description = ''b'', n_values = 4,
        value_map = [(1, ''x'')], reverse_value_map = [(''x'', 1)]\<rparr>] None = Inr \<lparr>bits = [\<lparr>min_position = 1, max_position = 2, description = ''a'', n_values = 4,
        value_map = [(1, ''y'')], reverse_value_map = [(''y'', 1)]\<rparr>, \<lparr>min_position = 4, max_position = 5, description = ''b'', n_values = 4,
        value_map = [(1, ''x'')], reverse_value_map = [(''x'', 1)]\<rparr>], total = 6\<rparr>
   \<and> total \<lparr>bits = [\<lparr>min_position = 1, max_position = 2, description = ''a'', n_values = 4,
        value_map = [(1, ''y'')], reverse_value_map = [(''y'', 1)]\<rparr>, \<lparr>min_position = 4, max_position = 5, description = ''b'', n_values = 4,
        value_map = [(1, ''x'')], reverse_value_map = [(''x'', 1)]\<rparr>], total = 6\<rparr> = max_position \<lparr>min_position = 4, max_position = 5, description = ''b'', n_values = 4,
        value_map = [(1, ''x'')], reverse_value_map = [(''x'', 1)]\<rparr> + 1"
proof -
  have h: "BitMask_init [IGroup \<lparr>min_position = 1, max_position = 2, description = ''a'', n_values = 4,
        value_map = [(1, ''y'')], reverse_value_map = [(''y'', 1)]\<rparr>, IGroup \<lparr>min_position = 4, max_position = 5, description = ''b'', n_values = 4,
        value_map = [(1, ''x'')], reverse_value_map = [(''x'', 1)]\<rparr>] None = Inr \<lparr>bits = [\<lparr>min_position = 1, max_position = 2, description = ''a'', n_values = 4,
        value_map = [(1, ''y'')], reverse_value_map = [(''y'', 1)]\<rparr>, \<lparr>min_position = 4, max_position = 5, description = ''b'', n_values = 4,
        value_map = [(1, ''x'')], reverse_value_map = [(''x'', 1)]\<rparr>], total = 6\<rparr>"
    by code_simp
  show ?thesis using h C5_total_is_last_group [OF h] by simp
qed

subsection \<open>The order of start and end in a key\<close>

text \<open>
  C4. The key \<open>2-10-name\<close> has integer parts with \<open>2 \<le> 10\<close>, and the claim has it
  accepted. \<open>format_bit_key\<close> compares the two parts as strings, where \<open>"2" > "10"\<close>,
  and raises the error of a start above the end; so does \<open>format_bits_info\<close>.
\<close>

theorem C4_start_2_end_10_rejected:
  "int_of_str ''2'' = Some 2 \<and> int_of_str ''10'' = Some 10
   \<and> format_bit_key (KStr ''2-10-name'') =
       Inl (ValueError ''start bit must be less than or equal to end bit.'')
   \<and> format_bits_info [(KStr ''2-10-name'', InfoDict [(KStr ''1'', ''x'')])] =
       Inl (ValueError ''start bit must be less than or equal to end bit.'')"
  by code_simp

subsection \<open>Decoding an image\<close>

text \<open>
  C8. On the handler of the schema \<open>{"3-3-cloud": {"1": "cloud"}}\<close>, \<open>decode_image\<close>
  splits the key into three parts and unpacks them into two names, which raises; on the
  mask of the same schema \<open>get_masks\<close> returns one band, named \<open>cloud - cloud\<close>.
\<close>

theorem C8_decode_image_unpack_fails:
  "BitHandler_init [(KStr ''3-3-cloud'', InfoDict [(KStr ''1'', ''cloud'')])] (Some 4) =
     Inr \<lparr>hbits = [(''3-3-cloud'', [(''1'', ''cloud'')])], all_bits_cache = None,
          bit_length = 4\<rparr>
   \<and> decode_image
        \<lparr>hbits = [(''3-3-cloud'', [(''1'', ''cloud'')])], all_bits_cache = None,
         bit_length = 4\<rparr>
        (EImage ''image'') (BandIndex 0) =
       Inl (ValueError ''too many values to unpack (expected 2)'')
   \<and> BitMask_from_dict [(KStr ''3-3-cloud'', InfoDict [(KStr ''1'', ''cloud'')])] =
       Inr \<lparr>bits = [\<lparr>min_position = 3, max_position = 3, description = ''cloud'',
                      n_values = 2, value_map = [(1, ''cloud'')],
                      reverse_value_map = [(''cloud'', 1)]\<rparr>],
            total = 4\<rparr>
   \<and> BitMask_get_masks
        \<lparr>bits = [\<lparr>min_position = 3, max_position = 3, description = ''cloud'',
                  n_values = 2, value_map = [(1, ''cloud'')],
                  reverse_value_map = [(''cloud'', 1)]\<rparr>],
         total = 4\<rparr>
        (ESelect (EImage ''image'') (BandIndex 0)) =
       Inr (EFromList
              [EFromList
                 [ERename
                    (EEq (EBitwiseAnd
                            (ERightShift (ESelect (EImage ''image'') (BandIndex 0)) (EConst 3))
                            (EConst 1))
                       (EConst 1))
                    ''cloud - cloud'']])"
  by code_simp

subsection \<open>The positions of a handler\<close>

lemma all_bits_loop_raises:
  "ks \<noteq> [] \<Longrightarrow>
   all_bits_loop ks ab =
     Inl (AttributeError ''module eebit.helpers has no attribute decode_key'')"
  by (cases ks) (simp_all add: decode_key_def)

text \<open>
  C1. The property \<open>all_bits\<close> reads \<open>helpers.decode_key\<close>, a name that the module
  does not bind. On every schema with at least one entry the first pass of its loop
  therefore raises \<open>AttributeError\<close>, where the specification gives the list of the
  positions of all keys: the constructor raises when no \<open>bit_length\<close> (or the length
  \<open>0\<close>) is given, and on a handler built with a \<open>bit_length\<close> the property raises when
  it is read.
\<close>

theorem C1_all_bits_attribute_error:
  assumes "format_bits_info raw = Inr F" and "F \<noteq> []"
  shows "BitHandler_init raw None =
           Inl (AttributeError ''module eebit.helpers has no attribute decode_key'')
     \<and> BitHandler_init raw (Some 0) =
           Inl (AttributeError ''module eebit.helpers has no attribute decode_key'')
     \<and> (n \<noteq> 0 \<longrightarrow>
           BitHandler_init raw (Some n) =
             Inr \<lparr>hbits = F, all_bits_cache = None, bit_length = n\<rparr>)
     \<and> all_bits \<lparr>hbits = F, all_bits_cache = None, bit_length = n\<rparr> =
           (Inl (AttributeError ''module eebit.helpers has no attribute decode_key''),
            \<lparr>hbits = F, all_bits_cache = None, bit_length = n\<rparr>)"
proof -
  from assms(2) have ne: "map fst F \<noteq> []" by simp
  have ab: "all_bits \<lparr>hbits = F, all_bits_cache = None, bit_length = m\<rparr> =
      (Inl (AttributeError ''module eebit.helpers has no attribute decode_key''),
       \<lparr>hbits = F, all_bits_cache = None, bit_length = m\<rparr>)" for m
    by (simp add: all_bits_def all_bits_loop_raises [OF ne])
  show ?thesis
    by (simp add: BitHandler_init_def assms(1) ab)
qed

text \<open>
  The schema on bit 3 and on bits 8 to 9. The expansion of its keys gives the positions
  3, 8 and 9, so that the length would be 7; the constructor raises instead, and so does
  the property on the handler built with the length 10.
\<close>

theorem C1_all_bits_attribute_error_witness:
  "format_bits_info
     [(KStr ''3-3-cloud'', InfoDict [(KStr ''1'', ''cloud'')]),
      (KStr ''8-9-conf'', InfoDict [(KStr ''1'', ''low''), (KStr ''3'', ''high'')])] =
     Inr [(''3-3-cloud'', [(''1'', ''cloud'')]),
          (''8-9-conf'', [(''1'', ''low''), (''3'', ''high'')])]
   \<and> all_positions [(''3-3-cloud'', [(''1'', ''cloud'')]),
                     (''8-9-conf'', [(''1'', ''low''), (''3'', ''high'')])] = [3, 8, 9]
   \<and> BitHandler_init
       [(KStr ''3-3-cloud'', InfoDict [(KStr ''1'', ''cloud'')]),
        (KStr ''8-9-conf'', InfoDict [(KStr ''1'', ''low''), (KStr ''3'', ''high'')])] None =
       Inl (AttributeError ''module eebit.helpers has no attribute decode_key'')
   \<and> BitHandler_init
       [(KStr ''3-3-cloud'', InfoDict [(KStr ''1'', ''cloud'')]),
        (KStr ''8-9-conf'', InfoDict [(KStr ''1'', ''low''), (KStr ''3'', ''high'')])]
       (Some 10) =
       Inr \<lparr>hbits = [(''3-3-cloud'', [(''1'', ''cloud'')]),
                     (''8-9-conf'', [(''1'', ''low''), (''3'', ''high'')])],
            all_bits_cache = None, bit_length = 10\<rparr>
   \<and> fst (all_bits \<lparr>hbits = [(''3-3-cloud'', [(''1'', ''cloud'')]),
                              (''8-9-conf'', [(''1'', ''low''), (''3'', ''high'')])],
                     all_bits_cache = None, bit_length = 10\<rparr>) =
       Inl (AttributeError ''module eebit.helpers has no attribute decode_key'')"
proof -
  have f: "format_bits_info
     [(KStr ''3-3-cloud'', InfoDict [(KStr ''1'', ''cloud'')]),
      (KStr ''8-9-conf'', InfoDict [(KStr ''1'', ''low''), (KStr ''3'', ''high'')])] =
     Inr [(''3-3-cloud'', [(''1'', ''cloud'')]),
          (''8-9-conf'', [(''1'', ''low''), (''3'', ''high'')])]"
    by code_simp
  have ne: "[(''3-3-cloud'', [(''1'', ''cloud'')]),
             (''8-9-conf'', [(''1'', ''low''), (''3'', ''high'')])] \<noteq> []"
    by simp
  have p: "all_positions [(''3-3-cloud'', [(''1'', ''cloud'')]),
                   (''8-9-conf'', [(''1'', ''low''), (''3'', ''high'')])] = [3, 8, 9]"
    by code_simp
  show ?thesis using f p C1_all_bits_attribute_error [OF f ne, of 10] by simp
qed

subsection \<open>Overlapping groups\<close>

lemma promote_facts:
  "promote x = Inr (Some g) \<Longrightarrow>
     [min_position g..max_position g] = item_range x \<and> description g = item_description x"
  by (auto simp: promote_Some item_range_def item_description_def dest!: to_bit_group_positions)

lemma promote_None: "promote x = Inr None \<longleftrightarrow> x = IOther"
  by (auto simp: promote_def split: item.splits sum.splits)

lemma to_bit_group_error:
  "to_bit_group b d = Inl e \<Longrightarrow> \<exists>msg. e = ValueError msg"
  by (auto simp: to_bit_group_def BitGroup_init_def is_int_def
           split: if_splits sum.splits bool.splits)

lemma promote_error: "promote x = Inl e \<Longrightarrow> \<exists>msg. e = ValueError msg"
  by (auto simp: promote_def split: item.splits sum.splits dest: to_bit_group_error)

lemma promote_all_error:
  "promote_all xs bs ds = Inl e \<Longrightarrow> IOther \<notin> set xs \<Longrightarrow> \<exists>msg. e = ValueError msg"
proof (induction xs arbitrary: bs ds)
  case Nil
  then show ?case by simp
next
  case (Cons x xs)
  then show ?case
    by (auto simp: promote_None split: sum.splits option.splits if_splits dest: promote_error)
qed

lemma promote_all_ok:
  "promote_all xs bs ds = Inr r \<Longrightarrow>
     \<exists>gs. r = bs @ gs
        \<and> map (\<lambda>g. [min_position g..max_position g]) gs = map item_range xs"
proof (induction xs arbitrary: bs ds)
  case Nil
  then show ?case by simp
next
  case (Cons x xs)
  from Cons.prems obtain g where g: "promote x = Inr (Some g)"
    and r: "promote_all xs (bs @ [g]) (ds @ [description g]) = Inr r"
    by (auto split: sum.splits option.splits if_splits)
  from Cons.IH [OF r] obtain gs where "r = (bs @ [g]) @ gs"
    "map (\<lambda>g. [min_position g..max_position g]) gs = map item_range xs" by blast
  with promote_facts [OF g] show ?case
    by (intro exI [of _ "g # gs"]) simp
qed

lemma promote_all_char:
  "\<forall>x \<in> set xs. \<exists>g. promote x = Inr (Some g) \<Longrightarrow>
   (\<exists>r. promote_all xs bs ds = Inr r) \<longleftrightarrow>
     (distinct (map item_description xs) \<and> set (map item_description xs) \<inter> set ds = {})"
  "\<forall>x \<in> set xs. \<exists>g. promote x = Inr (Some g) \<Longrightarrow>
   \<not> (distinct (map item_description xs) \<and> set (map item_description xs) \<inter> set ds = {}) \<Longrightarrow>
   promote_all xs bs ds = Inl (ValueError ''Bit description is duplicated in the bitmask.'')"
proof (induction xs arbitrary: bs ds)
  case Nil
  { case 1 show ?case by simp }
  { case 2 then show ?case by simp }
next
  case (Cons x xs)
  { case 1
    then obtain g where g: "promote x = Inr (Some g)"
      and xs: "\<forall>x \<in> set xs. \<exists>g. promote x = Inr (Some g)" by auto
    from promote_facts [OF g] have d: "description g = item_description x" by simp
    show ?case
      using Cons.IH(1) [OF xs, of "bs @ [g]" "ds @ [description g]"]
      by (auto simp: g d) }
  { case 2
    then obtain g where g: "promote x = Inr (Some g)"
      and xs: "\<forall>x \<in> set xs. \<exists>g. promote x = Inr (Some g)" by auto
    from promote_facts [OF g] have d: "description g = item_description x" by simp
    show ?case
    proof (cases "item_description x \<in> set ds")
      case True
      then show ?thesis by (simp add: g d)
    next
      case False
      with 2(2) have "\<not> (distinct (map item_description xs)
          \<and> set (map item_description xs) \<inter> set (ds @ [description g]) = {})"
        by (auto simp: d)
      from Cons.IH(2) [OF xs this] False show ?thesis by (simp add: g d)
    qed }
qed

lemma add_positions_char:
  "add_positions ps ap =
     (if distinct ps \<and> set ps \<inter> set ap = {} then Inr (ap @ ps)
      else Inl (ValueError ''Bit position is duplicated in the bitmask.''))"
  by (induction ps arbitrary: ap) auto

lemma check_overlap_char:
  "check_overlap gs ap =
     (if distinct (concat (map (\<lambda>g. [min_position g..max_position g]) gs))
         \<and> set (concat (map (\<lambda>g. [min_position g..max_position g]) gs)) \<inter> set ap = {}
      then Inr (ap @ concat (map (\<lambda>g. [min_position g..max_position g]) gs))
      else Inl (ValueError ''Bit position is duplicated in the bitmask.''))"
proof (induction gs arbitrary: ap)
  case Nil
  then show ?case by simp
next
  case (Cons g gs)
  show ?case
    by (simp add: add_positions_char Cons.IH) blast
qed

lemma distinct_concat_perm:
  assumes "mset ys = mset xs"
  shows "distinct (concat (map f ys)) \<longleftrightarrow> distinct (concat (map f xs))"
proof -
  have "mset (concat (map f ys)) = mset (concat (map f xs))"
    using assms by (metis mset_concat mset_map sum_mset_sum_list)
  then show ?thesis by (rule mset_eq_imp_distinct_iff)
qed


lemma validate_bit_map:
  "validate_value_map 2 [(PInt 0, n), (PInt 1, p)] [] =
     (if \<not> is_str n \<or> \<not> is_str p
      then Inl (ValueError ''Bit value must be a non-empty string.'')
      else Inr [(0, lower n), (1, lower p)])"
  by (simp add: is_int_def)

lemma to_bit_group_char:
  "to_bit_group b d =
     (if position b < 0 then Inl (ValueError ''Bit positions must be non-negative.'')
      else if \<not> is_str (negative b) \<or> \<not> is_str (positive b)
      then Inl (ValueError ''Bit value must be a non-empty string.'')
      else Inr \<lparr>min_position = position b, max_position = position b,
                description = lower d, n_values = 2,
                value_map = [(0, lower (negative b)), (1, lower (positive b))],
                reverse_value_map =
                  reverse_map [(0, lower (negative b)), (1, lower (positive b))] []\<rparr>)"
  by (simp add: to_bit_group_def BitGroup_init_def is_int_def validate_bit_map)

lemma promote_error_msg:
  "promote x = Inl e \<Longrightarrow>
     e = ValueError ''Bit positions must be non-negative.''
     \<or> e = ValueError ''Bit value must be a non-empty string.''"
  by (cases x) (auto simp: promote_def to_bit_group_char split: if_splits)

lemma promote_all_Inr_all:
  "promote_all xs bs ds = Inr r \<Longrightarrow> \<forall>x \<in> set xs. \<exists>g. promote x = Inr (Some g)"
proof (induction xs arbitrary: bs ds)
  case Nil
  then show ?case by simp
next
  case (Cons x xs)
  from Cons.prems obtain g where g: "promote x = Inr (Some g)"
    and r: "promote_all xs (bs @ [g]) (ds @ [description g]) = Inr r"
    by (auto split: sum.splits option.splits if_splits)
  from Cons.IH [OF r] g show ?case by simp
qed

lemma promote_all_Inl_cases:
  "promote_all xs bs ds = Inl e \<Longrightarrow> IOther \<notin> set xs \<Longrightarrow>
     e = ValueError ''Bit description is duplicated in the bitmask.''
     \<or> (\<exists>x \<in> set xs. promote x = Inl e)"
proof (induction xs arbitrary: bs ds)
  case Nil
  then show ?case by simp
next
  case (Cons x xs)
  then show ?case
    by (auto simp: promote_None split: sum.splits option.splits if_splits)
qed


text \<open>
  C6, amended. Let a list of Bits and BitGroups claim some position twice. Then building a
  mask from any permutation of it fails with a \<open>ValueError\<close>. When every Bit of the list
  converts to a group, the error is that of a duplicated position if the descriptions are
  pairwise different, and that of a duplicated description if they are not: the
  descriptions are checked first. When some Bit does not convert (its position is
  negative, or one of its labels is empty or reads as an integer), the error is that of a
  duplicated description or the error that the conversion of such a Bit raises, and not
  that of a duplicated position.
\<close>

theorem C6_overlap_always_fails:
  assumes "mset ys = mset xs"
    and "\<not> distinct (concat (map item_range xs))"
    and "IOther \<notin> set xs"
  shows "(\<exists>msg. BitMask_init ys tot = Inl (ValueError msg))
     \<and> ((\<forall>x \<in> set xs. \<exists>g. promote x = Inr (Some g)) \<and> distinct (map item_description xs) \<longrightarrow>
           BitMask_init ys tot = Inl (ValueError ''Bit position is duplicated in the bitmask.''))
     \<and> ((\<forall>x \<in> set xs. \<exists>g. promote x = Inr (Some g)) \<and> \<not> distinct (map item_description xs) \<longrightarrow>
           BitMask_init ys tot =
             Inl (ValueError ''Bit description is duplicated in the bitmask.''))
     \<and> ((\<exists>x \<in> set xs. \<forall>g. promote x \<noteq> Inr (Some g)) \<longrightarrow>
           BitMask_init ys tot =
             Inl (ValueError ''Bit description is duplicated in the bitmask.'')
           \<or> (\<exists>x \<in> set xs. \<exists>e. promote x = Inl e \<and> BitMask_init ys tot = Inl e
                 \<and> (e = ValueError ''Bit positions must be non-negative.''
                      \<or> e = ValueError ''Bit value must be a non-empty string.'')))"
proof -
  have st: "set ys = set xs" using assms(1) by (rule mset_eq_setD)
  have nd: "\<not> distinct (concat (map item_range ys))"
    using assms(2) distinct_concat_perm [OF assms(1), of item_range] by simp
  have dd: "distinct (map item_description ys) \<longleftrightarrow> distinct (map item_description xs)"
    by (rule mset_eq_imp_distinct_iff) (simp add: assms(1))
  have ok: "BitMask_init ys tot = Inl (ValueError ''Bit position is duplicated in the bitmask.'')"
    if "promote_all ys [] [] = Inr r" for r
  proof -
    from promote_all_ok [OF that]
    have "map (\<lambda>g. [min_position g..max_position g]) r = map item_range ys" by auto
    with nd have "\<not> distinct (concat (map (\<lambda>g. [min_position g..max_position g]) r))"
      by simp
    then show ?thesis by (simp add: BitMask_init_def that check_overlap_char)
  qed
  have one: "\<exists>msg. BitMask_init ys tot = Inl (ValueError msg)"
  proof (cases "promote_all ys [] []")
    case (Inl e)
    from promote_all_error [OF Inl] assms(3) st obtain msg where "e = ValueError msg" by auto
    with Inl show ?thesis by (simp add: BitMask_init_def)
  next
    case (Inr r)
    from ok [OF Inr] show ?thesis by blast
  qed
  have two: "BitMask_init ys tot = Inl (ValueError ''Bit position is duplicated in the bitmask.'')"
    if "\<forall>x \<in> set xs. \<exists>g. promote x = Inr (Some g)" "distinct (map item_description xs)"
  proof -
    from that st have p: "\<forall>x \<in> set ys. \<exists>g. promote x = Inr (Some g)" by simp
    from promote_all_char(1) [OF p, of "[]" "[]"] that(2) dd
    obtain r where "promote_all ys [] [] = Inr r" by auto
    then show ?thesis by (rule ok)
  qed
  have three: "BitMask_init ys tot =
      Inl (ValueError ''Bit description is duplicated in the bitmask.'')"
    if "\<forall>x \<in> set xs. \<exists>g. promote x = Inr (Some g)" "\<not> distinct (map item_description xs)"
  proof -
    from that st have p: "\<forall>x \<in> set ys. \<exists>g. promote x = Inr (Some g)" by simp
    from that(2) dd have "\<not> (distinct (map item_description ys)
        \<and> set (map item_description ys) \<inter> set [] = {})" by simp
    from promote_all_char(2) [OF p this, of "[]"] show ?thesis
      by (simp add: BitMask_init_def)
  qed
  have four: "BitMask_init ys tot =
             Inl (ValueError ''Bit description is duplicated in the bitmask.'')
           \<or> (\<exists>x \<in> set xs. \<exists>e. promote x = Inl e \<and> BitMask_init ys tot = Inl e
                 \<and> (e = ValueError ''Bit positions must be non-negative.''
                      \<or> e = ValueError ''Bit value must be a non-empty string.''))"
    if "\<exists>x \<in> set xs. \<forall>g. promote x \<noteq> Inr (Some g)"
  proof (cases "promote_all ys [] []")
    case (Inl e)
    then have bm: "BitMask_init ys tot = Inl e" by (simp add: BitMask_init_def)
    from assms(3) st have "IOther \<notin> set ys" by simp
    from promote_all_Inl_cases [OF Inl this]
    consider "e = ValueError ''Bit description is duplicated in the bitmask.''"
      | x where "x \<in> set ys" "promote x = Inl e" by blast
    then show ?thesis
    proof cases
      case 1
      with bm show ?thesis by simp
    next
      case 2
      from promote_error_msg [OF 2(2)] 2 bm st show ?thesis by blast
    qed
  next
    case (Inr r)
    from promote_all_Inr_all [OF Inr] st that show ?thesis by blast
  qed
  show ?thesis using one two three four by blast
qed

text \<open>
  C6, as stated, fails: two copies of the Bit at position 1 with the label \<open>a\<close>
  overlap, and the error raised is that of the duplicated description, not that of the
  overlap.
\<close>

theorem C6_description_error_first_counterexample:
  "Bit_init (PInt 1) ''a'' None = Inr \<lparr>position = 1, positive = ''a'', negative = ''no a''\<rparr>
   \<and> BitMask_init [IBit \<lparr>position = 1, positive = ''a'', negative = ''no a''\<rparr>,
                    IBit \<lparr>position = 1, positive = ''a'', negative = ''no a''\<rparr>] None =
       Inl (ValueError ''Bit description is duplicated in the bitmask.'')"
  by code_simp

text \<open>
  Three lists on bit 3, each checked in the other order. The group on bits 2 to 3 and
  the group on bit 3: the error is that of the overlap. The Bits \<open>Cloud\<close> and
  \<open>cloud\<close>, whose descriptions coincide in lower case: the error is that of the
  description. The Bits \<open>5\<close> and \<open>a\<close>, the first of which does not convert: the
  error is that of its conversion.
\<close>

theorem C6_overlap_always_fails_witness:
  "mset [IGroup \<lparr>min_position = 3, max_position = 3, description = ''snow'', n_values = 2,
        value_map = [(1, ''snow'')], reverse_value_map = [(''snow'', 1)]\<rparr>, IGroup \<lparr>min_position = 2, max_position = 3, description = ''clouds'', n_values = 4,
        value_map = [(0, ''no clouds''), (3, ''high clouds'')],
        reverse_value_map = [(''no clouds'', 0), (''high clouds'', 3)]\<rparr>] = mset [IGroup \<lparr>min_position = 2, max_position = 3, description = ''clouds'', n_values = 4,
        value_map = [(0, ''no clouds''), (3, ''high clouds'')],
        reverse_value_map = [(''no clouds'', 0), (''high clouds'', 3)]\<rparr>, IGroup \<lparr>min_position = 3, max_position = 3, description = ''snow'', n_values = 2,
        value_map = [(1, ''snow'')], reverse_value_map = [(''snow'', 1)]\<rparr>]
   \<and> \<not> distinct (concat (map item_range [IGroup \<lparr>min_position = 2, max_position = 3, description = ''clouds'', n_values = 4,
        value_map = [(0, ''no clouds''), (3, ''high clouds'')],
        reverse_value_map = [(''no clouds'', 0), (''high clouds'', 3)]\<rparr>, IGroup \<lparr>min_position = 3, max_position = 3, description = ''snow'', n_values = 2,
        value_map = [(1, ''snow'')], reverse_value_map = [(''snow'', 1)]\<rparr>]))
   \<and> BitMask_init [IGroup \<lparr>min_position = 3, max_position = 3, description = ''snow'', n_values = 2,
        value_map = [(1, ''snow'')], reverse_value_map = [(''snow'', 1)]\<rparr>, IGroup \<lparr>min_position = 2, max_position = 3, description = ''clouds'', n_values = 4,
        value_map = [(0, ''no clouds''), (3, ''high clouds'')],
        reverse_value_map = [(''no clouds'', 0), (''high clouds'', 3)]\<rparr>] None =
       Inl (ValueError ''Bit position is duplicated in the bitmask.'')
   \<and> mset [IBit \<lparr>position = 3, positive = ''cloud'', negative = ''clear''\<rparr>, IBit \<lparr>position = 3, positive = ''Cloud'', negative = ''no Cloud''\<rparr>] = mset [IBit \<lparr>position = 3, positive = ''Cloud'', negative = ''no Cloud''\<rparr>, IBit \<lparr>position = 3, positive = ''cloud'', negative = ''clear''\<rparr>]
   \<and> \<not> distinct (concat (map item_range [IBit \<lparr>position = 3, positive = ''Cloud'', negative = ''no Cloud''\<rparr>, IBit \<lparr>position = 3, positive = ''cloud'', negative = ''clear''\<rparr>]))
   \<and> BitMask_init [IBit \<lparr>position = 3, positive = ''cloud'', negative = ''clear''\<rparr>, IBit \<lparr>position = 3, positive = ''Cloud'', negative = ''no Cloud''\<rparr>] None =
       Inl (ValueError ''Bit description is duplicated in the bitmask.'')
   \<and> mset [IBit \<lparr>position = 3, positive = ''a'', negative = ''no a''\<rparr>, IBit \<lparr>position = 3, positive = ''5'', negative = ''no 5''\<rparr>] = mset [IBit \<lparr>position = 3, positive = ''5'', negative = ''no 5''\<rparr>, IBit \<lparr>position = 3, positive = ''a'', negative = ''no a''\<rparr>]
   \<and> \<not> distinct (concat (map item_range [IBit \<lparr>position = 3, positive = ''5'', negative = ''no 5''\<rparr>, IBit \<lparr>position = 3, positive = ''a'', negative = ''no a''\<rparr>]))
   \<and> promote (IBit \<lparr>position = 3, positive = ''5'', negative = ''no 5''\<rparr>) = Inl (ValueError ''Bit value must be a non-empty string.'')
   \<and> BitMask_init [IBit \<lparr>position = 3, positive = ''a'', negative = ''no a''\<rparr>, IBit \<lparr>position = 3, positive = ''5'', negative = ''no 5''\<rparr>] None =
       Inl (ValueError ''Bit value must be a non-empty string.'')"
proof -
  have a1: "mset [IGroup \<lparr>min_position = 3, max_position = 3, description = ''snow'', n_values = 2,
        value_map = [(1, ''snow'')], reverse_value_map = [(''snow'', 1)]\<rparr>, IGroup \<lparr>min_position = 2, max_position = 3, description = ''clouds'', n_values = 4,
        value_map = [(0, ''no clouds''), (3, ''high clouds'')],
        reverse_value_map = [(''no clouds'', 0), (''high clouds'', 3)]\<rparr>] = mset [IGroup \<lparr>min_position = 2, max_position = 3, description = ''clouds'', n_values = 4,
        value_map = [(0, ''no clouds''), (3, ''high clouds'')],
        reverse_value_map = [(''no clouds'', 0), (''high clouds'', 3)]\<rparr>, IGroup \<lparr>min_position = 3, max_position = 3, description = ''snow'', n_values = 2,
        value_map = [(1, ''snow'')], reverse_value_map = [(''snow'', 1)]\<rparr>]" by simp
  have a2: "\<not> distinct (concat (map item_range [IGroup \<lparr>min_position = 2, max_position = 3, description = ''clouds'', n_values = 4,
        value_map = [(0, ''no clouds''), (3, ''high clouds'')],
        reverse_value_map = [(''no clouds'', 0), (''high clouds'', 3)]\<rparr>, IGroup \<lparr>min_position = 3, max_position = 3, description = ''snow'', n_values = 2,
        value_map = [(1, ''snow'')], reverse_value_map = [(''snow'', 1)]\<rparr>]))" by code_simp
  have a3: "IOther \<notin> set [IGroup \<lparr>min_position = 2, max_position = 3, description = ''clouds'', n_values = 4,
        value_map = [(0, ''no clouds''), (3, ''high clouds'')],
        reverse_value_map = [(''no clouds'', 0), (''high clouds'', 3)]\<rparr>, IGroup \<lparr>min_position = 3, max_position = 3, description = ''snow'', n_values = 2,
        value_map = [(1, ''snow'')], reverse_value_map = [(''snow'', 1)]\<rparr>]" by simp
  have a4: "\<forall>x \<in> set [IGroup \<lparr>min_position = 2, max_position = 3, description = ''clouds'', n_values = 4,
        value_map = [(0, ''no clouds''), (3, ''high clouds'')],
        reverse_value_map = [(''no clouds'', 0), (''high clouds'', 3)]\<rparr>, IGroup \<lparr>min_position = 3, max_position = 3, description = ''snow'', n_values = 2,
        value_map = [(1, ''snow'')], reverse_value_map = [(''snow'', 1)]\<rparr>]. \<exists>g. promote x = Inr (Some g)"
    by (simp add: promote_def)
  have a5: "distinct (map item_description [IGroup \<lparr>min_position = 2, max_position = 3, description = ''clouds'', n_values = 4,
        value_map = [(0, ''no clouds''), (3, ''high clouds'')],
        reverse_value_map = [(''no clouds'', 0), (''high clouds'', 3)]\<rparr>, IGroup \<lparr>min_position = 3, max_position = 3, description = ''snow'', n_values = 2,
        value_map = [(1, ''snow'')], reverse_value_map = [(''snow'', 1)]\<rparr>])"
    by (simp add: item_description_def)
  have ra: "BitMask_init [IGroup \<lparr>min_position = 3, max_position = 3, description = ''snow'', n_values = 2,
        value_map = [(1, ''snow'')], reverse_value_map = [(''snow'', 1)]\<rparr>, IGroup \<lparr>min_position = 2, max_position = 3, description = ''clouds'', n_values = 4,
        value_map = [(0, ''no clouds''), (3, ''high clouds'')],
        reverse_value_map = [(''no clouds'', 0), (''high clouds'', 3)]\<rparr>] None =
       Inl (ValueError ''Bit position is duplicated in the bitmask.'')"
    using a4 a5 C6_overlap_always_fails [OF a1 a2 a3, of None] by blast
  have b1: "mset [IBit \<lparr>position = 3, positive = ''cloud'', negative = ''clear''\<rparr>, IBit \<lparr>position = 3, positive = ''Cloud'', negative = ''no Cloud''\<rparr>] = mset [IBit \<lparr>position = 3, positive = ''Cloud'', negative = ''no Cloud''\<rparr>, IBit \<lparr>position = 3, positive = ''cloud'', negative = ''clear''\<rparr>]" by simp
  have b2: "\<not> distinct (concat (map item_range [IBit \<lparr>position = 3, positive = ''Cloud'', negative = ''no Cloud''\<rparr>, IBit \<lparr>position = 3, positive = ''cloud'', negative = ''clear''\<rparr>]))" by code_simp
  have b3: "IOther \<notin> set [IBit \<lparr>position = 3, positive = ''Cloud'', negative = ''no Cloud''\<rparr>, IBit \<lparr>position = 3, positive = ''cloud'', negative = ''clear''\<rparr>]" by simp
  have pb1: "promote (IBit \<lparr>position = 3, positive = ''Cloud'', negative = ''no Cloud''\<rparr>) =
      Inr (Some \<lparr>min_position = 3, max_position = 3, description = ''cloud'', n_values = 2,
        value_map = [(0, ''no cloud''), (1, ''cloud'')],
        reverse_value_map = [(''no cloud'', 0), (''cloud'', 1)]\<rparr>)" by code_simp
  have pb2: "promote (IBit \<lparr>position = 3, positive = ''cloud'', negative = ''clear''\<rparr>) =
      Inr (Some \<lparr>min_position = 3, max_position = 3, description = ''cloud'', n_values = 2,
        value_map = [(0, ''clear''), (1, ''cloud'')],
        reverse_value_map = [(''clear'', 0), (''cloud'', 1)]\<rparr>)" by code_simp
  have b4: "\<forall>x \<in> set [IBit \<lparr>position = 3, positive = ''Cloud'', negative = ''no Cloud''\<rparr>, IBit \<lparr>position = 3, positive = ''cloud'', negative = ''clear''\<rparr>]. \<exists>g. promote x = Inr (Some g)"
    using pb1 pb2 by simp
  have b5: "\<not> distinct (map item_description [IBit \<lparr>position = 3, positive = ''Cloud'', negative = ''no Cloud''\<rparr>, IBit \<lparr>position = 3, positive = ''cloud'', negative = ''clear''\<rparr>])"
    by code_simp
  have rb: "BitMask_init [IBit \<lparr>position = 3, positive = ''cloud'', negative = ''clear''\<rparr>, IBit \<lparr>position = 3, positive = ''Cloud'', negative = ''no Cloud''\<rparr>] None =
       Inl (ValueError ''Bit description is duplicated in the bitmask.'')"
    using b4 b5 C6_overlap_always_fails [OF b1 b2 b3, of None] by blast
  have c1: "mset [IBit \<lparr>position = 3, positive = ''a'', negative = ''no a''\<rparr>, IBit \<lparr>position = 3, positive = ''5'', negative = ''no 5''\<rparr>] = mset [IBit \<lparr>position = 3, positive = ''5'', negative = ''no 5''\<rparr>, IBit \<lparr>position = 3, positive = ''a'', negative = ''no a''\<rparr>]" by simp
  have c2: "\<not> distinct (concat (map item_range [IBit \<lparr>position = 3, positive = ''5'', negative = ''no 5''\<rparr>, IBit \<lparr>position = 3, positive = ''a'', negative = ''no a''\<rparr>]))" by code_simp
  have c3: "IOther \<notin> set [IBit \<lparr>position = 3, positive = ''5'', negative = ''no 5''\<rparr>, IBit \<lparr>position = 3, positive = ''a'', negative = ''no a''\<rparr>]" by simp
  have p5: "promote (IBit \<lparr>position = 3, positive = ''5'', negative = ''no 5''\<rparr>) = Inl (ValueError ''Bit value must be a non-empty string.'')"
    by code_simp
  have pa: "promote (IBit \<lparr>position = 3, positive = ''a'', negative = ''no a''\<rparr>) = Inr (Some \<lparr>min_position = 3, max_position = 3,
        description = ''a'', n_values = 2, value_map = [(0, ''no a''), (1, ''a'')],
        reverse_value_map = [(''no a'', 0), (''a'', 1)]\<rparr>)"
    by code_simp
  have c4: "\<exists>x \<in> set [IBit \<lparr>position = 3, positive = ''5'', negative = ''no 5''\<rparr>, IBit \<lparr>position = 3, positive = ''a'', negative = ''no a''\<rparr>]. \<forall>g. promote x \<noteq> Inr (Some g)"
    using p5 by simp
  have nd: "BitMask_init [IBit \<lparr>position = 3, positive = ''a'', negative = ''no a''\<rparr>, IBit \<lparr>position = 3, positive = ''5'', negative = ''no 5''\<rparr>] None \<noteq>
      Inl (ValueError ''Bit description is duplicated in the bitmask.'')"
    by code_simp
  from c4 C6_overlap_always_fails [OF c1 c2 c3, of None]
  have "BitMask_init [IBit \<lparr>position = 3, positive = ''a'', negative = ''no a''\<rparr>, IBit \<lparr>position = 3, positive = ''5'', negative = ''no 5''\<rparr>] None =
             Inl (ValueError ''Bit description is duplicated in the bitmask.'')
           \<or> (\<exists>x \<in> set [IBit \<lparr>position = 3, positive = ''5'', negative = ''no 5''\<rparr>, IBit \<lparr>position = 3, positive = ''a'', negative = ''no a''\<rparr>]. \<exists>e. promote x = Inl e \<and> BitMask_init [IBit \<lparr>position = 3, positive = ''a'', negative = ''no a''\<rparr>, IBit \<lparr>position = 3, positive = ''5'', negative = ''no 5''\<rparr>] None = Inl e
                 \<and> (e = ValueError ''Bit positions must be non-negative.''
                      \<or> e = ValueError ''Bit value must be a non-empty string.''))"
    by blast
  with nd obtain x e where "x \<in> set [IBit \<lparr>position = 3, positive = ''5'', negative = ''no 5''\<rparr>, IBit \<lparr>position = 3, positive = ''a'', negative = ''no a''\<rparr>]" "promote x = Inl e"
    and bm: "BitMask_init [IBit \<lparr>position = 3, positive = ''a'', negative = ''no a''\<rparr>, IBit \<lparr>position = 3, positive = ''5'', negative = ''no 5''\<rparr>] None = Inl e" by blast
  with p5 pa have "e = ValueError ''Bit value must be a non-empty string.''" by auto
  with bm have rc: "BitMask_init [IBit \<lparr>position = 3, positive = ''a'', negative = ''no a''\<rparr>, IBit \<lparr>position = 3, positive = ''5'', negative = ''no 5''\<rparr>] None =
       Inl (ValueError ''Bit value must be a non-empty string.'')" by simp
  show ?thesis using a1 a2 ra b1 b2 rb c1 c2 p5 rc by blast
qed

subsection \<open>The round trip of a schema\<close>

text \<open>Joining what \<open>split\<close> has cut gives the string back.\<close>

lemma split_max_ne: "split_max c n s \<noteq> []"
  by (cases n) auto

lemma join_Cons: "rest \<noteq> [] \<Longrightarrow> join c (x # rest) = x @ c # join c rest"
  by (cases rest) auto

lemma take_drop_sep:
  "c \<in> set s \<Longrightarrow> takeWhile (\<lambda>x. x \<noteq> c) s @ c # tl (dropWhile (\<lambda>x. x \<noteq> c) s) = s"
proof -
  assume "c \<in> set s"
  then have "dropWhile (\<lambda>x. x \<noteq> c) s \<noteq> []" by (simp add: dropWhile_eq_Nil_conv) 
  moreover then have "hd (dropWhile (\<lambda>x. x \<noteq> c) s) = c"
    using hd_dropWhile [of "\<lambda>x. x \<noteq> c" s] by simp
  ultimately have "c # tl (dropWhile (\<lambda>x. x \<noteq> c) s) = dropWhile (\<lambda>x. x \<noteq> c) s"
    by (metis list.collapse)
  then show ?thesis by simp
qed

lemma join_split_max: "join c (split_max c n s) = s"
proof (induction n arbitrary: s)
  case 0
  then show ?case by simp
next
  case (Suc n)
  show ?case
    by (simp add: join_Cons split_max_ne Suc.IH take_drop_sep)
qed

lemma join_split2: "join (CHR ''-'') (split2 s) = s"
  unfolding split2_def by (rule join_split_max)

lemma split2_three: "split2 k = [a, b, c] \<Longrightarrow> k = a @ ''-'' @ b @ ''-'' @ c"
  using join_split2 [of k] by simp

lemma canonical_intD:
  "canonical_int s \<Longrightarrow> \<exists>n. int_of_str s = Some n \<and> str_of_int n = s"
  by (auto simp: canonical_int_def split: option.splits)

lemma format_value_loop_canonical:
  "format_value_loop (raw_dict vm) acc = Inr fi \<Longrightarrow>
   \<forall>pl \<in> set vm. canonical_int (fst pl) \<Longrightarrow>
   distinct (map fst vm) \<Longrightarrow> set (map fst vm) \<inter> set (map fst acc) = {} \<Longrightarrow>
   fi = acc @ vm"
proof (induction vm arbitrary: acc)
  case Nil
  then show ?case by (simp add: raw_dict_def)
next
  case (Cons pl vm)
  obtain p l where pl: "pl = (p, l)" by (cases pl)
  from Cons.prems(2) pl obtain n where n: "int_of_str p = Some n" "str_of_int n = p"
    by (auto dest: canonical_intD)
  from Cons.prems(4) pl have fresh: "p \<notin> set (map fst acc)" by auto
  from Cons.prems(1) have r: "format_value_loop (raw_dict vm) (acc @ [(p, l)]) = Inr fi"
    by (auto simp: raw_dict_def pl n dict_set_fresh [OF fresh] split: if_splits)
  have "fi = (acc @ [(p, l)]) @ vm"
    using Cons.prems(2,3,4) pl by (intro Cons.IH [OF r]) auto
  then show ?case by (simp add: pl)
qed

lemma format_bit_key_three:
  "split2 k = [a, b, c] \<Longrightarrow> format_bit_key (KStr k) = Inr k' \<Longrightarrow> k' = k"
  using join_split2 [of k]
  by (auto simp: format_bit_key_def check3_def split: if_splits)

lemma single_bit_key_three:
  "split2 k = [a, b, c] \<Longrightarrow> single_bit_key (KStr k) info = Inr (KStr k)"
  by (simp add: single_bit_key_def)

lemma check_entry_dict:
  "check_entry k (InfoDict d) classes = Inr ((k', fi), c) \<Longrightarrow>
     k' = k \<and> format_value_loop d [] = Inr fi"
  by (auto simp: check_entry_def split: list.splits option.splits if_splits sum.splits)

lemma format_bits_loop_canonical:
  "format_bits_loop (raw_of sch) final classes = Inr F \<Longrightarrow>
   \<forall>e \<in> set sch. canonical_entry e \<Longrightarrow>
   distinct (map fst sch) \<Longrightarrow> set (map fst sch) \<inter> set (map fst final) = {} \<Longrightarrow>
   F = final @ sch"
proof (induction sch arbitrary: final classes)
  case Nil
  then show ?case by (simp add: raw_of_def)
next
  case (Cons e sch)
  obtain k vm where e: "e = (k, vm)" by (cases e)
  from Cons.prems(2) e have ce: "canonical_entry (k, vm)" by simp
  then obtain a b c where sp: "split2 k = [a, b, c]"
    by (auto simp: canonical_entry_def split: list.splits)
  from ce have vmc: "\<forall>pl \<in> set vm. canonical_int (fst pl)" "distinct (map fst vm)"
    by (auto simp: canonical_entry_def)
  from Cons.prems(1) obtain k2 k3 fi cn where
    fk: "format_bit_key (KStr k) = Inr k2"
    and chk: "check_entry k2 (InfoDict (raw_dict vm)) classes = Inr ((k3, fi), cn)"
    and r: "format_bits_loop (raw_of sch) (dict_set final k3 fi) (classes @ [cn]) = Inr F"
    by (auto simp: raw_of_def e single_bit_key_three [OF sp] split: sum.splits prod.splits)
  from format_bit_key_three [OF sp fk] have k2: "k2 = k" .
  from check_entry_dict [OF chk] have k3: "k3 = k2"
    and fv: "format_value_loop (raw_dict vm) [] = Inr fi" by auto
  from format_value_loop_canonical [OF fv vmc] have fi: "fi = vm" by simp
  from Cons.prems(4) e have fresh: "k \<notin> set (map fst final)" by auto
  have r': "format_bits_loop (raw_of sch) (final @ [(k, vm)]) (classes @ [cn]) = Inr F"
    using r by (simp add: k2 k3 fi dict_set_fresh [OF fresh])
  have "F = (final @ [(k, vm)]) @ sch"
    using Cons.prems(2,3,4) e by (intro Cons.IH [OF r']) auto
  then show ?case by (simp add: e)
qed

lemma format_bits_info_canonical:
  "canonical_schema sch \<Longrightarrow> format_bits_info (raw_of sch) = Inr F \<Longrightarrow> F = sch"
  using format_bits_loop_canonical [of sch "[]" "[]" F]
  by (simp add: canonical_schema_def format_bits_info_def)

text \<open>One entry: the group built from it writes the entry back.\<close>

lemma int_keys_canonical:
  "int_keys vm acc = Inr ivm \<Longrightarrow>
   \<forall>pl \<in> set vm. canonical_int (fst pl) \<Longrightarrow>
   distinct (map fst vm) \<Longrightarrow>
   set (map fst vm) \<inter> set (map (str_of_int \<circ> fst) acc) = {} \<Longrightarrow>
   \<exists>ns. ivm = acc @ ns \<and> map (\<lambda>nl. (str_of_int (fst nl), snd nl)) ns = vm"
proof (induction vm arbitrary: acc)
  case Nil
  then show ?case by simp
next
  case (Cons pl vm)
  obtain p l where pl: "pl = (p, l)" by (cases pl)
  from Cons.prems(2) pl obtain n where n: "int_of_str p = Some n" "str_of_int n = p"
    by (auto dest: canonical_intD)
  have fresh: "n \<notin> set (map fst acc)"
  proof
    assume "n \<in> set (map fst acc)"
    then have "str_of_int n \<in> set (map (str_of_int \<circ> fst) acc)" by auto
    with Cons.prems(4) pl n show False by auto
  qed
  from Cons.prems(1) have r: "int_keys vm (acc @ [(n, l)]) = Inr ivm"
    by (simp add: pl n dict_set_fresh [OF fresh])
  have "\<exists>ns. ivm = (acc @ [(n, l)]) @ ns \<and> map (\<lambda>nl. (str_of_int (fst nl), snd nl)) ns = vm"
    using Cons.prems(2,3,4) pl n by (intro Cons.IH [OF r]) auto
  then obtain ns where "ivm = acc @ (n, l) # ns"
    "map (\<lambda>nl. (str_of_int (fst nl), snd nl)) ns = vm" by auto
  then show ?case
    by (intro exI [of _ "(n, l) # ns"]) (simp add: pl n)
qed

lemma validate_value_map_ok:
  "validate_value_map nv (map (\<lambda>(n, v). (PInt n, v)) ns) acc = Inr r \<Longrightarrow>
     r = acc @ map (\<lambda>nl. (fst nl, lower (snd nl))) ns"
proof (induction ns arbitrary: acc)
  case Nil
  then show ?case by simp
next
  case (Cons nl ns)
  obtain n l where nl: "nl = (n, l)" by (cases nl)
  from Cons.prems have fresh: "n \<notin> set (map fst acc)"
    and r: "validate_value_map nv (map (\<lambda>(n, v). (PInt n, v)) ns)
              (dict_set acc n (lower l)) = Inr r"
    by (auto simp: nl is_int_def split: if_splits)
  from Cons.IH [OF r [unfolded dict_set_fresh [OF fresh]]] show ?case by (simp add: nl)
qed

lemma BitGroup_init_fields:
  assumes "BitGroup_init d (PInt s) (PInt e) (map (\<lambda>(n, v). (PInt n, v)) ns) = Inr g"
  shows "min_position g = s \<and> max_position g = e \<and> description g = lower d
     \<and> value_map g = map (\<lambda>nl. (fst nl, lower (snd nl))) ns"
  using assms
  by (auto simp: BitGroup_init_def is_int_def split: if_splits sum.splits
           dest!: validate_value_map_ok)

lemma fold_str_keys:
  "distinct (map (str_of_int \<circ> fst) ns) \<Longrightarrow>
   set (map (str_of_int \<circ> fst) ns) \<inter> set (map fst acc) = {} \<Longrightarrow>
   fold (\<lambda>(k, v) d. dict_set d (str_of_int k) v) ns acc =
     acc @ map (\<lambda>nl. (str_of_int (fst nl), snd nl)) ns"
proof (induction ns arbitrary: acc)
  case Nil
  then show ?case by simp
next
  case (Cons nl ns)
  obtain n l where nl: "nl = (n, l)" by (cases nl)
  from Cons.prems(2) nl have fresh: "str_of_int n \<notin> set (map fst acc)" by auto
  have "fold (\<lambda>(k, v) d. dict_set d (str_of_int k) v) ns (acc @ [(str_of_int n, l)]) =
     (acc @ [(str_of_int n, l)]) @ map (\<lambda>nl. (str_of_int (fst nl), snd nl)) ns"
    using Cons.prems nl by (intro Cons.IH) auto
  then show ?case by (simp add: nl dict_set_fresh [OF fresh])
qed

lemma group_of_entry_to_dict:
  assumes "group_of_entry k vm = Inr g" and "canonical_entry (k, vm)"
  shows "BitGroup_to_dict g = [(k, vm)]"
proof -
  from assms(2) obtain a b c where sp: "split2 k = [a, b, c]"
    and ca: "canonical_int a" and cb: "canonical_int b" and lc: "lower c = c"
    by (auto simp: canonical_entry_def split: list.splits)
  from assms(2) have vmc: "\<forall>pl \<in> set vm. canonical_int (fst pl)" "distinct (map fst vm)"
    and lv: "\<forall>pl \<in> set vm. lower (snd pl) = snd pl"
    by (auto simp: canonical_entry_def)
  from ca obtain s where s: "int_of_str a = Some s" "str_of_int s = a"
    by (auto dest: canonical_intD)
  from cb obtain e where e: "int_of_str b = Some e" "str_of_int e = b"
    by (auto dest: canonical_intD)
  from assms(1) obtain ivm where ik: "int_keys vm [] = Inr ivm"
    and bg: "BitGroup_init c (PInt s) (PInt e) (map (\<lambda>(n, v). (PInt n, v)) ivm) = Inr g"
    by (auto simp: group_of_entry_def sp s e split: sum.splits)
  from int_keys_canonical [OF ik vmc] have ivm: "map (\<lambda>nl. (str_of_int (fst nl), snd nl)) ivm = vm"
    by simp
  from BitGroup_init_fields [OF bg] have f: "min_position g = s" "max_position g = e"
    "description g = c" "value_map g = map (\<lambda>nl. (fst nl, lower (snd nl))) ivm"
    by (simp_all add: lc)
  from lv have snds: "\<forall>nl \<in> set ivm. lower (snd nl) = snd nl"
    unfolding ivm [symmetric] by simp
  then have "map (\<lambda>nl. (fst nl, lower (snd nl))) ivm = ivm"
    by (induction ivm) auto
  with f(4) have vmg: "value_map g = ivm" by simp
  from vmc(2) have dk: "distinct (map (str_of_int \<circ> fst) ivm)"
    unfolding ivm [symmetric] by (simp add: comp_def)
  have vals: "fold (\<lambda>(k, v) d. dict_set d (str_of_int k) v) ivm [] = vm"
    using fold_str_keys [OF dk, of "[]"] ivm by simp
  have key: "str_of_int (min_position g) @ ''-'' @ str_of_int (max_position g) @ ''-''
      @ description g = k"
    unfolding f(1,2,3) s(2) e(2) using split2_three [OF sp] by simp
  show ?thesis
    unfolding BitGroup_to_dict_def key vmg vals ..
qed

text \<open>All entries: the groups, the mask, and the dictionary written from the mask.\<close>

lemma from_dict_loop_canonical:
  "from_dict_loop sch acc = Inr r \<Longrightarrow> \<forall>e \<in> set sch. canonical_entry e \<Longrightarrow>
     \<exists>gs. r = acc @ gs \<and> map BitGroup_to_dict gs = map (\<lambda>e. [e]) sch"
proof (induction sch arbitrary: acc)
  case Nil
  then show ?case by simp
next
  case (Cons e sch)
  obtain k vm where e: "e = (k, vm)" by (cases e)
  from Cons.prems(1) obtain g where g: "group_of_entry k vm = Inr g"
    and r: "from_dict_loop sch (acc @ [g]) = Inr r"
    by (auto simp: e split: sum.splits)
  from Cons.prems(2) e have ce: "canonical_entry (k, vm)" by simp
  from Cons.prems(2) have rest: "\<forall>e \<in> set sch. canonical_entry e" by simp
  from Cons.IH [OF r rest] obtain gs where gs: "r = (acc @ [g]) @ gs"
    "map BitGroup_to_dict gs = map (\<lambda>e. [e]) sch" by blast
  with group_of_entry_to_dict [OF g ce] show ?case
    by (intro exI [of _ "g # gs"]) (simp add: e)
qed

lemma promote_all_groups:
  "promote_all (map IGroup gs) bs ds = Inr r \<Longrightarrow> r = bs @ gs"
proof (induction gs arbitrary: bs ds)
  case Nil
  then show ?case by simp
next
  case (Cons g gs)
  from Cons.prems have "promote_all (map IGroup gs) (bs @ [g]) (ds @ [description g]) = Inr r"
    by (auto simp: promote_def split: if_splits)
  from Cons.IH [OF this] show ?case by simp
qed

lemma BitMask_init_groups:
  "BitMask_init (map IGroup gs) tot = Inr m \<Longrightarrow> bits m = gs"
  by (auto simp: BitMask_init_def split: sum.splits if_splits dest!: promote_all_groups)

lemma fold_to_dict:
  "map BitGroup_to_dict gs = map (\<lambda>e. [e]) sch \<Longrightarrow>
   distinct (map fst sch) \<Longrightarrow> set (map fst sch) \<inter> set (map fst acc) = {} \<Longrightarrow>
   fold (\<lambda>g final. dict_update final (BitGroup_to_dict g)) gs acc = acc @ sch"
proof (induction gs arbitrary: sch acc)
  case Nil
  then show ?case by simp
next
  case (Cons g gs)
  from Cons.prems(1) obtain e rest where sch: "sch = e # rest"
    and g: "BitGroup_to_dict g = [e]"
    and gs: "map BitGroup_to_dict gs = map (\<lambda>e. [e]) rest"
    by (cases sch) auto
  obtain k vm where e: "e = (k, vm)" by (cases e)
  from Cons.prems(3) sch e have fresh: "k \<notin> set (map fst acc)" by auto
  have step: "dict_update acc (BitGroup_to_dict g) = acc @ [e]"
    by (simp add: g dict_update_def e dict_set_fresh [OF fresh])
  have "fold (\<lambda>g final. dict_update final (BitGroup_to_dict g)) gs (acc @ [e]) =
      (acc @ [e]) @ rest"
    using Cons.prems(2,3) sch e by (intro Cons.IH [OF gs]) auto
  then show ?case by (simp add: step sch)
qed

text \<open>
  C2, amended. Let a schema be canonical in the strict sense: start, end and the keys of
  the value dictionaries are integers written as \<open>str\<close> writes them, and the names and
  labels are in lower case. If \<open>BitMask.from_dict\<close> accepts it, then \<open>to_dict\<close> of
  the mask is the schema, entry by entry and in the same order.
\<close>

theorem C2_round_trip_lower_case:
  assumes "canonical_schema sch" and "BitMask_from_dict (raw_of sch) = Inr m"
  shows "BitMask_to_dict m = sch"
proof -
  from assms(2) obtain F gs where F: "format_bits_info (raw_of sch) = Inr F"
    and gs: "from_dict_loop F [] = Inr gs"
    and m: "BitMask_init (map IGroup gs) None = Inr m"
    by (auto simp: BitMask_from_dict_def split: sum.splits)
  from format_bits_info_canonical [OF assms(1) F] have Fs: "F = sch" .
  from assms(1) have ce: "\<forall>e \<in> set sch. canonical_entry e" and d: "distinct (map fst sch)"
    by (simp_all add: canonical_schema_def)
  from from_dict_loop_canonical [OF gs [unfolded Fs] ce]
  have td: "map BitGroup_to_dict gs = map (\<lambda>e. [e]) sch" by simp
  from BitMask_init_groups [OF m] have b: "bits m = gs" .
  show ?thesis
    using fold_to_dict [OF td d, of "[]"] by (simp add: BitMask_to_dict_def b)
qed

text \<open>
  C2, as stated, fails. The schema \<open>{"3-3-Cloud": {"1": "Cloud"}}\<close> is accepted and
  comes back as \<open>{"3-3-cloud": {"1": "cloud"}}\<close>, since \<open>BitGroup.__init__\<close> puts the
  description and the labels in lower case. The schema \<open>{"03-03-x": {"1": "y"}}\<close> is
  accepted and comes back under the key \<open>3-3-x\<close>, since \<open>to_dict\<close> writes the
  positions as integers.
\<close>

theorem C2_round_trip_counterexample:
  "BitMask_from_dict (raw_of [(''3-3-Cloud'', [(''1'', ''Cloud'')])]) =
     Inr \<lparr>bits = [\<lparr>min_position = 3, max_position = 3, description = ''cloud'',
                    n_values = 2, value_map = [(1, ''cloud'')],
                    reverse_value_map = [(''cloud'', 1)]\<rparr>],
          total = 4\<rparr>
   \<and> BitMask_to_dict
        \<lparr>bits = [\<lparr>min_position = 3, max_position = 3, description = ''cloud'',
                  n_values = 2, value_map = [(1, ''cloud'')],
                  reverse_value_map = [(''cloud'', 1)]\<rparr>],
         total = 4\<rparr> = [(''3-3-cloud'', [(''1'', ''cloud'')])]
   \<and> [(''3-3-cloud'', [(''1'', ''cloud'')])] \<noteq> [(''3-3-Cloud'', [(''1'', ''Cloud'')])]
   \<and> BitMask_from_dict (raw_of [(''03-03-x'', [(''1'', ''y'')])]) =
     Inr \<lparr>bits = [\<lparr>min_position = 3, max_position = 3, description = ''x'',
                    n_values = 2, value_map = [(1, ''y'')],
                    reverse_value_map = [(''y'', 1)]\<rparr>],
          total = 4\<rparr>
   \<and> BitMask_to_dict
        \<lparr>bits = [\<lparr>min_position = 3, max_position = 3, description = ''x'',
                  n_values = 2, value_map = [(1, ''y'')],
                  reverse_value_map = [(''y'', 1)]\<rparr>],
         total = 4\<rparr> = [(''3-3-x'', [(''1'', ''y'')])]
   \<and> [(''3-3-x'', [(''1'', ''y'')])] \<noteq> [(''03-03-x'', [(''1'', ''y'')])]"
  by code_simp

text \<open>A schema of two entries in lower case, which comes back unchanged.\<close>

theorem C2_round_trip_lower_case_witness:
  "canonical_schema [(''1-1-shadow'', [(''1'', ''shadow'')]),
                     (''2-3-clouds'', [(''0'', ''no clouds''), (''3'', ''high clouds'')])]
   \<and> BitMask_from_dict (raw_of [(''1-1-shadow'', [(''1'', ''shadow'')]),
                     (''2-3-clouds'', [(''0'', ''no clouds''), (''3'', ''high clouds'')])]) =
     Inr \<lparr>bits = [\<lparr>min_position = 1, max_position = 1, description = ''shadow'',
                    n_values = 2, value_map = [(1, ''shadow'')],
                    reverse_value_map = [(''shadow'', 1)]\<rparr>,
                  \<lparr>min_position = 2, max_position = 3, description = ''clouds'',
                    n_values = 4, value_map = [(0, ''no clouds''), (3, ''high clouds'')],
                    reverse_value_map = [(''no clouds'', 0), (''high clouds'', 3)]\<rparr>],
          total = 4\<rparr>
   \<and> BitMask_to_dict
        \<lparr>bits = [\<lparr>min_position = 1, max_position = 1, description = ''shadow'',
                    n_values = 2, value_map = [(1, ''shadow'')],
                    reverse_value_map = [(''shadow'', 1)]\<rparr>,
                  \<lparr>min_position = 2, max_position = 3, description = ''clouds'',
                    n_values = 4, value_map = [(0, ''no clouds''), (3, ''high clouds'')],
                    reverse_value_map = [(''no clouds'', 0), (''high clouds'', 3)]\<rparr>],
          total = 4\<rparr> =
       [(''1-1-shadow'', [(''1'', ''shadow'')]),
        (''2-3-clouds'', [(''0'', ''no clouds''), (''3'', ''high clouds'')])]"
proof -
  have h1: "canonical_schema [(''1-1-shadow'', [(''1'', ''shadow'')]),
                     (''2-3-clouds'', [(''0'', ''no clouds''), (''3'', ''high clouds'')])]"
    by code_simp
  have h2: "BitMask_from_dict (raw_of [(''1-1-shadow'', [(''1'', ''shadow'')]),
                     (''2-3-clouds'', [(''0'', ''no clouds''), (''3'', ''high clouds'')])]) =
     Inr \<lparr>bits = [\<lparr>min_position = 1, max_position = 1, description = ''shadow'',
                    n_values = 2, value_map = [(1, ''shadow'')],
                    reverse_value_map = [(''shadow'', 1)]\<rparr>,
                  \<lparr>min_position = 2, max_position = 3, description = ''clouds'',
                    n_values = 4, value_map = [(0, ''no clouds''), (3, ''high clouds'')],
                    reverse_value_map = [(''no clouds'', 0), (''high clouds'', 3)]\<rparr>],
          total = 4\<rparr>"
    by code_simp
  show ?thesis using h1 h2 C2_round_trip_lower_case [OF h1 h2] by simp
qed

end
